theory Spec2Isabelle
  imports Complex_Main
begin

section \<open>JavaScript values\<close>

text \<open>
  The client is TypeScript. The values that flow through the functions verified here
  are JSON payloads, strings and numbers. A JavaScript number is a double: \<open>Fin r\<close> is
  the double whose value is the rational \<open>r\<close>, beside the two infinities and \<open>NaN\<close>.
  Comparing two doubles is exact; the result of an arithmetic operation is the exact
  result rounded to a double, and that rounding is a function of the platform.
\<close>

datatype number = Fin rat | PosInf | NegInf | NaN

datatype jsvalue =
    JUndefined
  | JNull
  | JBool bool
  | JNum number
  | JStr string
  | JArr "jsvalue list"
  | JObj "(string \<times> jsvalue) list"

text \<open>
  Reading a property \<open>v.k\<close>. On \<open>null\<close> and \<open>undefined\<close> the read throws a
  TypeError (\<open>None\<close>); on an object it is the member or \<open>undefined\<close>; on any other value
  it is \<open>undefined\<close> for the keys read in this code (\<open>type\<close>, \<open>data\<close>, \<open>id\<close>, \<open>exp\<close>,
  \<open>access\<close>), none of which is a built-in member of a string, number, boolean or array.
\<close>

fun member :: "jsvalue \<Rightarrow> string \<Rightarrow> jsvalue option" where
  "member JUndefined k = None"
| "member JNull k = None"
| "member (JObj kvs) k = Some (case map_of kvs k of None \<Rightarrow> JUndefined | Some v \<Rightarrow> v)"
| "member v k = Some JUndefined"

text \<open>Truthiness of a \<open>string | null\<close>: \<open>null\<close> and the empty string are falsy.\<close>

fun truthy :: "string option \<Rightarrow> bool" where
  "truthy None = False"
| "truthy (Some s) = (s \<noteq> [])"

text \<open>
  Functions of the platform, not of this repository, are parameters of the model:
  \<open>__DEV__\<close>, \<open>JSON.parse\<close> (\<open>None\<close> when it throws), \<open>JSON.stringify\<close>, the string
  conversion of a template literal, the numeric conversion of a string, \<open>atob\<close>
  (\<open>None\<close> when it throws, also when it is not defined at all), and \<open>double\<close>, the
  rounding of an exact arithmetic result to a double (an infinity beyond the range).
\<close>

record platform =
  DEV :: bool
  JSON_parse :: "string \<Rightarrow> jsvalue option"
  JSON_stringify :: "jsvalue \<Rightarrow> string"
  to_string :: "jsvalue \<Rightarrow> string"
  string_to_number :: "string \<Rightarrow> number"
  atob :: "string \<Rightarrow> string option"
  double :: "rat \<Rightarrow> number"

section \<open>The real-time services (frontend/shared/hooks.ts, lines 603 to 960)\<close>

text \<open>
  \<open>WebSocketService\<close> (socket.io) and \<open>NativeWebSocketService\<close> (raw WebSocket) declare
  the same private fields \<open>reconnectAttempts = 0\<close>, \<open>maxReconnectAttempts = 5\<close>,
  \<open>reconnectDelay = 1000\<close> and \<open>listeners = {}\<close>, and their methods \<open>handleReconnect\<close>,
  \<open>on\<close>, \<open>off\<close> and \<open>emit\<close> have the same bodies. These members are the record
  \<open>service\<close>, which each class extends with its transport. The effects of the methods
  are fields of the same record: the delays passed to \<open>setTimeout\<close>, the console lines,
  the listener invocations, and the \<open>AsyncStorage\<close> the services read.

  A listener is a function compared by reference (\<open>cb !== callback\<close>); it is an opaque
  identity here, and calling it is recorded in \<open>invoked\<close> together with the event being
  dispatched. What a listener does when called is outside the model.

  \<open>listeners\<close> is a plain object (\<open>listeners = {}\<close>) keyed by event name; the field below
  holds its own properties. A plain object also inherits the members of
  \<open>Object.prototype\<close>: for such a name with no own property, \<open>this.listeners[event]\<close> is
  the inherited member, which is truthy and has no \<open>push\<close>, \<open>filter\<close> or \<open>forEach\<close>.
\<close>

type_synonym callback = nat

datatype console_line = ConsoleLog string | ConsoleError string

record service =
  reconnectAttempts :: nat
  maxReconnectAttempts :: nat
  reconnectDelay :: nat
  listeners :: "string \<rightharpoonup> callback list"
  timeouts :: "nat list"
  console :: "console_line list"
  invoked :: "(string \<times> callback \<times> jsvalue) list"
  asyncStorage :: "string \<rightharpoonup> string"

subsection \<open>Event emitter\<close>

text \<open>
  The property names every plain object inherits (ECMAScript, with its annex B), and
  what \<open>this.listeners[event]\<close> evaluates to.
\<close>

definition Object_prototype :: "string list" where
  "Object_prototype =
     [''constructor'', ''hasOwnProperty'', ''isPrototypeOf'', ''propertyIsEnumerable'',
      ''toLocaleString'', ''toString'', ''valueOf'', ''__proto__'', ''__defineGetter__'',
      ''__defineSetter__'', ''__lookupGetter__'', ''__lookupSetter__'']"

datatype slot = Absent | Own "callback list" | Inherited

definition listeners_at :: "'a service_scheme \<Rightarrow> string \<Rightarrow> slot" where
  "listeners_at s event =
     (case listeners s event of
        Some cbs \<Rightarrow> Own cbs
      | None \<Rightarrow> if event \<in> set Object_prototype then Inherited else Absent)"

text \<open>
  \<^verbatim>\<open>on(event, callback) { if (!this.listeners[event]) this.listeners[event] = [];
                          this.listeners[event].push(callback); }\<close>
  The result is \<open>None\<close> when the call throws a TypeError: \<open>push\<close> of an inherited member
  is not a function. Nothing has been assigned by then. The same holds for \<open>filter\<close> in
  \<open>off\<close> and for \<open>forEach\<close> in \<open>emit\<close>.
\<close>

definition on :: "'a service_scheme \<Rightarrow> string \<Rightarrow> callback \<Rightarrow> 'a service_scheme option" where
  "on s event cb =
     (case listeners_at s event of
        Absent \<Rightarrow> Some (s\<lparr>listeners := (listeners s)(event \<mapsto> [cb])\<rparr>)
      | Own cbs \<Rightarrow> Some (s\<lparr>listeners := (listeners s)(event \<mapsto> cbs @ [cb])\<rparr>)
      | Inherited \<Rightarrow> None)"

text \<open>
  \<^verbatim>\<open>off(event, callback) { if (this.listeners[event])
      this.listeners[event] = this.listeners[event].filter(cb => cb !== callback); }\<close>
\<close>

definition off :: "'a service_scheme \<Rightarrow> string \<Rightarrow> callback \<Rightarrow> 'a service_scheme option" where
  "off s event cb =
     (case listeners_at s event of
        Absent \<Rightarrow> Some s
      | Own cbs \<Rightarrow> Some (s\<lparr>listeners := (listeners s)(event \<mapsto> filter (\<lambda>c. c \<noteq> cb) cbs)\<rparr>)
      | Inherited \<Rightarrow> None)"

text \<open>
  \<^verbatim>\<open>emit(event, data) { if (this.listeners[event])
      this.listeners[event].forEach(callback => callback(data)); }\<close>
\<close>

definition emit :: "'a service_scheme \<Rightarrow> string \<Rightarrow> jsvalue \<Rightarrow> 'a service_scheme option" where
  "emit s event d =
     (case listeners_at s event of
        Absent \<Rightarrow> Some s
      | Own cbs \<Rightarrow> Some (s\<lparr>invoked := invoked s @ map (\<lambda>c. (event, c, d)) cbs\<rparr>)
      | Inherited \<Rightarrow> None)"

text \<open>
  A call that throws has changed nothing: its caller goes on from the state it had.
\<close>

definition or_thrown :: "'s \<Rightarrow> 's option \<Rightarrow> 's" where
  "or_thrown s result = (case result of None \<Rightarrow> s | Some s' \<Rightarrow> s')"

text \<open>
  A run of the emitter: any interleaving of registrations, removals and dispatches,
  whether they return or throw.
\<close>

datatype emitter_op = On string callback | Off string callback | Emit string jsvalue

fun emitter_step :: "'a service_scheme \<Rightarrow> emitter_op \<Rightarrow> 'a service_scheme" where
  "emitter_step s (On e c) = or_thrown s (on s e c)"
| "emitter_step s (Off e c) = or_thrown s (off s e c)"
| "emitter_step s (Emit e d) = or_thrown s (emit s e d)"

definition emitter_run :: "'a service_scheme \<Rightarrow> emitter_op list \<Rightarrow> 'a service_scheme" where
  "emitter_run s ops = foldl emitter_step s ops"

text \<open>The invocations of callback \<open>cb\<close> for dispatches of \<open>event\<close>.\<close>

definition calls_of :: "string \<Rightarrow> callback \<Rightarrow> 'a service_scheme \<Rightarrow> (string \<times> callback \<times> jsvalue) list" where
  "calls_of event cb s = filter (\<lambda>(e, c, d). e = event \<and> c = cb) (invoked s)"

definition registered :: "'a service_scheme \<Rightarrow> string \<Rightarrow> callback list" where
  "registered s event = (case listeners s event of None \<Rightarrow> [] | Some cbs \<Rightarrow> cbs)"

text \<open>The state a constructor starts from, before its call of \<open>connect()\<close>.\<close>

definition new_service :: "(string \<rightharpoonup> string) \<Rightarrow> service" where
  "new_service store =
     \<lparr>reconnectAttempts = 0, maxReconnectAttempts = 5, reconnectDelay = 1000,
      listeners = Map.empty, timeouts = [], console = [], invoked = [],
      asyncStorage = store\<rparr>"

subsection \<open>Reconnection with backoff\<close>

text \<open>
  \<^verbatim>\<open>handleReconnect() {
    if (this.reconnectAttempts < this.maxReconnectAttempts) {
      this.reconnectAttempts++;
      const delay = this.reconnectDelay * Math.pow(2, this.reconnectAttempts - 1);
      setTimeout(() => { console.log(...); this.connect(); }, delay);
    } else { console.error('Max reconnection attempts reached'); } }\<close>
  \<open>timeouts\<close> lists the delay of every \<open>setTimeout\<close> call, oldest first.
\<close>

definition handleReconnect :: "'a service_scheme \<Rightarrow> 'a service_scheme" where
  "handleReconnect s =
     (if reconnectAttempts s < maxReconnectAttempts s then
        (let attempts = reconnectAttempts s + 1;
             delay = reconnectDelay s * 2 ^ (attempts - 1)
         in s\<lparr>reconnectAttempts := attempts, timeouts := timeouts s @ [delay]\<rparr>)
      else s\<lparr>console := console s @ [ConsoleError ''Max reconnection attempts reached'']\<rparr>)"

definition WS_BASE_URL :: "platform \<Rightarrow> string" where
  "WS_BASE_URL P = (if DEV P then ''ws://localhost:8000'' else ''wss://api.twende.com'')"

subsection \<open>NativeWebSocketService\<close>

text \<open>
  Every \<open>WebSocket\<close> object the service constructs is an entry of \<open>sockets\<close>; the field
  \<open>ws\<close> refers to one of them by its index, or is \<open>null\<close>. An object that \<open>ws\<close> no longer
  refers to stays in the list: nothing closes it, and its handlers still run.
\<close>

datatype ready_state = CONNECTING | OPEN | CLOSING | CLOSED

record web_socket =
  ws_url :: string
  ws_authorization :: string
  readyState :: ready_state
  frames_sent :: "string list"

record native_service = service +
  ws :: "nat option"
  url :: string
  sockets :: "web_socket list"

definition new_native_service :: "(string \<rightharpoonup> string) \<Rightarrow> native_service" where
  "new_native_service store =
     \<lparr>reconnectAttempts = 0, maxReconnectAttempts = 5, reconnectDelay = 1000,
      listeners = Map.empty, timeouts = [], console = [], invoked = [],
      asyncStorage = store, ws = None, url = [], sockets = []\<rparr>"

definition update_socket :: "nat \<Rightarrow> ('k \<Rightarrow> 'k) \<Rightarrow> 'k list \<Rightarrow> 'k list" where
  "update_socket i f socks = (if i < length socks then socks[i := f (socks ! i)] else socks)"

text \<open>
  \<^verbatim>\<open>private async connect() {
    try {
      const token = await AsyncStorage.getItem('access_token');
      const userString = await AsyncStorage.getItem('user');
      if (!token || !userString) { console.log('No auth token ...'); return; }
      const user = JSON.parse(userString);
      this.url = `${WS_BASE_URL}/ws/user/${user.id}/`;
      this.ws = new WebSocket(this.url, [], { headers: { Authorization: `Bearer ${token}` } });
      this.setupEventListeners();
    } catch (error) { console.error('Native WebSocket connection error:', error); } }\<close>
  \<open>setupEventListeners\<close> attaches the four handlers below to the new object.
\<close>

definition native_connect :: "platform \<Rightarrow> native_service \<Rightarrow> native_service" where
  "native_connect P s =
     (case (asyncStorage s ''access_token'', asyncStorage s ''user'') of
        (Some token, Some userString) \<Rightarrow>
          if token = [] \<or> userString = [] then
            s\<lparr>console := console s @
                 [ConsoleLog ''No auth token or user found, skipping WebSocket connection'']\<rparr>
          else
            (case Option.bind (JSON_parse P userString) (\<lambda>user. member user ''id'') of
               None \<Rightarrow>
                 s\<lparr>console := console s @ [ConsoleError ''Native WebSocket connection error:'']\<rparr>
             | Some uid \<Rightarrow>
                 (let u = WS_BASE_URL P @ ''/ws/user/'' @ to_string P uid @ ''/''
                  in s\<lparr>url := u,
                        sockets := sockets s @
                          [\<lparr>ws_url = u, ws_authorization = ''Bearer '' @ token,
                            readyState = CONNECTING, frames_sent = []\<rparr>],
                        ws := Some (length (sockets s))\<rparr>))
      | _ \<Rightarrow>
          s\<lparr>console := console s @
               [ConsoleLog ''No auth token or user found, skipping WebSocket connection'']\<rparr>)"

text \<open>
  The handlers of socket \<open>i\<close>. The transport's own change of \<open>readyState\<close> comes with
  the event.
  \<^verbatim>\<open>onopen  = () => { console.log('Native WebSocket connected'); this.reconnectAttempts = 0; }
  onclose = (event) => { console.log('Native WebSocket disconnected:', ...); this.handleReconnect(); }
  onerror = (error) => { console.error('Native WebSocket error:', error); }\<close>
\<close>

definition native_onopen :: "nat \<Rightarrow> native_service \<Rightarrow> native_service" where
  "native_onopen i s =
     s\<lparr>sockets := update_socket i (\<lambda>k. k\<lparr>readyState := OPEN\<rparr>) (sockets s),
       console := console s @ [ConsoleLog ''Native WebSocket connected''],
       reconnectAttempts := 0\<rparr>"

definition native_onclose :: "nat \<Rightarrow> native_service \<Rightarrow> native_service" where
  "native_onclose i s =
     handleReconnect
       (s\<lparr>sockets := update_socket i (\<lambda>k. k\<lparr>readyState := CLOSED\<rparr>) (sockets s),
          console := console s @ [ConsoleLog ''Native WebSocket disconnected:'']\<rparr>)"

definition native_onerror :: "nat \<Rightarrow> native_service \<Rightarrow> native_service" where
  "native_onerror i s = s\<lparr>console := console s @ [ConsoleError ''Native WebSocket error:'']\<rparr>"

text \<open>
  \<^verbatim>\<open>private handleMessage(message: WebSocketMessage) {
    switch (message.type) {
      case 'driver_location_update': this.emit('location_update', message.data); break;
      case 'booking_update': this.emit('booking_update', message.data); break;
      case 'schedule_status_update': this.emit('schedule_update', message.data); break;
      case 'notification': this.emit('notification', message.data); break;
      default: console.log('Unknown message type:', message.type); } }\<close>
  The result is \<open>None\<close> when the method throws: reading \<open>message.type\<close> of \<open>null\<close>.
\<close>

definition handleMessage :: "native_service \<Rightarrow> jsvalue \<Rightarrow> native_service option" where
  "handleMessage s message =
     (case member message ''type'' of
        None \<Rightarrow> None
      | Some t \<Rightarrow>
          if t = JStr ''driver_location_update'' then
            Option.bind (member message ''data'') (emit s ''location_update'')
          else if t = JStr ''booking_update'' then
            Option.bind (member message ''data'') (emit s ''booking_update'')
          else if t = JStr ''schedule_status_update'' then
            Option.bind (member message ''data'') (emit s ''schedule_update'')
          else if t = JStr ''notification'' then
            Option.bind (member message ''data'') (emit s ''notification'')
          else Some (s\<lparr>console := console s @ [ConsoleLog ''Unknown message type:'']\<rparr>))"

text \<open>
  \<^verbatim>\<open>onmessage = (event) => {
    try { const message = JSON.parse(event.data); this.handleMessage(message); }
    catch (error) { console.error('Error parsing WebSocket message:', error); } }\<close>
  The handler itself always returns: whatever is thrown inside is caught and logged.
\<close>

definition native_onmessage :: "platform \<Rightarrow> native_service \<Rightarrow> string \<Rightarrow> native_service" where
  "native_onmessage P s frame =
     (case Option.bind (JSON_parse P frame) (handleMessage s) of
        Some s' \<Rightarrow> s'
      | None \<Rightarrow> s\<lparr>console := console s @ [ConsoleError ''Error parsing WebSocket message:'']\<rparr>)"

text \<open>The callback given to \<open>setTimeout\<close> by \<open>handleReconnect\<close>.\<close>

definition native_reconnect_timer :: "platform \<Rightarrow> native_service \<Rightarrow> native_service" where
  "native_reconnect_timer P s =
     native_connect P (s\<lparr>console := console s @ [ConsoleLog ''Attempting to reconnect'']\<rparr>)"

text \<open>
  \<^verbatim>\<open>isConnected() { return this.ws?.readyState === WebSocket.OPEN; }
  send(message) { if (this.ws?.readyState === WebSocket.OPEN) this.ws.send(JSON.stringify(message)); }\<close>
\<close>

definition native_isConnected :: "native_service \<Rightarrow> bool" where
  "native_isConnected s =
     (case ws s of
        None \<Rightarrow> False
      | Some i \<Rightarrow> i < length (sockets s) \<and> readyState (sockets s ! i) = OPEN)"

definition native_send :: "platform \<Rightarrow> native_service \<Rightarrow> jsvalue \<Rightarrow> native_service" where
  "native_send P s message =
     (case ws s of
        None \<Rightarrow> s
      | Some i \<Rightarrow>
          if i < length (sockets s) \<and> readyState (sockets s ! i) = OPEN then
            s\<lparr>sockets := update_socket i
                 (\<lambda>k. k\<lparr>frames_sent := frames_sent k @ [JSON_stringify P message]\<rparr>) (sockets s)\<rparr>
          else s)"

definition native_subscribeToSchedule :: "platform \<Rightarrow> native_service \<Rightarrow> number \<Rightarrow> native_service" where
  "native_subscribeToSchedule P s scheduleId =
     native_send P s (JObj [(''type'', JStr ''subscribe_to_schedule''), (''schedule_id'', JNum scheduleId)])"

definition native_unsubscribeFromSchedule :: "platform \<Rightarrow> native_service \<Rightarrow> number \<Rightarrow> native_service" where
  "native_unsubscribeFromSchedule P s scheduleId =
     native_send P s (JObj [(''type'', JStr ''unsubscribe_from_schedule''), (''schedule_id'', JNum scheduleId)])"

definition native_updateDriverLocation :: "platform \<Rightarrow> native_service \<Rightarrow> jsvalue \<Rightarrow> native_service" where
  "native_updateDriverLocation P s location =
     native_send P s (JObj [(''type'', JStr ''location_update''), (''data'', location)])"

definition native_updateDriverStatus :: "platform \<Rightarrow> native_service \<Rightarrow> jsvalue \<Rightarrow> native_service" where
  "native_updateDriverStatus P s status =
     native_send P s (JObj [(''type'', JStr ''status_update''), (''data'', status)])"

text \<open>\<^verbatim>\<open>disconnect() { if (this.ws) { this.ws.close(); this.ws = null; } }\<close>\<close>

definition native_disconnect :: "native_service \<Rightarrow> native_service" where
  "native_disconnect s =
     (case ws s of
        None \<Rightarrow> s
      | Some i \<Rightarrow>
          s\<lparr>sockets := update_socket i
               (\<lambda>k. if readyState k = CLOSED then k else k\<lparr>readyState := CLOSING\<rparr>) (sockets s),
            ws := None\<rparr>)"

text \<open>
  Everything that can happen to the service after its construction: the events of its
  sockets, the reconnect timer, the calls of its public methods, and a write to
  \<open>AsyncStorage\<close> by other code.
\<close>

datatype native_event =
    WsOpen nat
  | WsClose nat
  | WsError nat
  | WsMessage string
  | ReconnectTimer
  | CallSend jsvalue
  | CallOn string callback
  | CallOff string callback
  | CallDisconnect
  | StorageWrite string "string option"

fun native_step :: "platform \<Rightarrow> native_service \<Rightarrow> native_event \<Rightarrow> native_service" where
  "native_step P s (WsOpen i) = native_onopen i s"
| "native_step P s (WsClose i) = native_onclose i s"
| "native_step P s (WsError i) = native_onerror i s"
| "native_step P s (WsMessage frame) = native_onmessage P s frame"
| "native_step P s ReconnectTimer = native_reconnect_timer P s"
| "native_step P s (CallSend m) = native_send P s m"
| "native_step P s (CallOn e c) = or_thrown s (on s e c)"
| "native_step P s (CallOff e c) = or_thrown s (off s e c)"
| "native_step P s CallDisconnect = native_disconnect s"
| "native_step P s (StorageWrite k v) = s\<lparr>asyncStorage := (asyncStorage s)(k := v)\<rparr>"


subsection \<open>WebSocketService (socket.io)\<close>

record io_socket =
  io_auth_token :: string
  connected :: bool
  emitted :: "(string \<times> jsvalue) list"

record socketio_service = service +
  socket :: "nat option"
  io_sockets :: "io_socket list"

definition new_socketio_service :: "(string \<rightharpoonup> string) \<Rightarrow> socketio_service" where
  "new_socketio_service store =
     \<lparr>reconnectAttempts = 0, maxReconnectAttempts = 5, reconnectDelay = 1000,
      listeners = Map.empty, timeouts = [], console = [], invoked = [],
      asyncStorage = store, socket = None, io_sockets = []\<rparr>"

text \<open>
  \<^verbatim>\<open>private async connect() {
    try {
      const token = await AsyncStorage.getItem('access_token');
      const userString = await AsyncStorage.getItem('user');
      if (!token || !userString) { console.log('No auth token ...'); return; }
      const user = JSON.parse(userString);
      this.socket = io(WS_BASE_URL, { auth: { token }, transports: ['websocket'], timeout: 20000 });
      this.setupEventListeners();
    } catch (error) { console.error('WebSocket connection error:', error); } }\<close>
\<close>

definition socketio_connect :: "platform \<Rightarrow> socketio_service \<Rightarrow> socketio_service" where
  "socketio_connect P s =
     (case (asyncStorage s ''access_token'', asyncStorage s ''user'') of
        (Some token, Some userString) \<Rightarrow>
          if token = [] \<or> userString = [] then
            s\<lparr>console := console s @
                 [ConsoleLog ''No auth token or user found, skipping WebSocket connection'']\<rparr>
          else
            (case JSON_parse P userString of
               None \<Rightarrow> s\<lparr>console := console s @ [ConsoleError ''WebSocket connection error:'']\<rparr>
             | Some user \<Rightarrow>
                 s\<lparr>io_sockets := io_sockets s @
                      [\<lparr>io_auth_token = token, connected = False, emitted = []\<rparr>],
                   socket := Some (length (io_sockets s))\<rparr>)
      | _ \<Rightarrow>
          s\<lparr>console := console s @
               [ConsoleLog ''No auth token or user found, skipping WebSocket connection'']\<rparr>)"

text \<open>
  The handlers \<open>setupEventListeners\<close> registers on socket \<open>i\<close>:
  \<^verbatim>\<open>'connect'       => { console.log('WebSocket connected'); this.reconnectAttempts = 0; }
  'disconnect'    => { console.log('WebSocket disconnected:', reason); this.handleReconnect(); }
  'connect_error' => { console.error('WebSocket connection error:', error); this.handleReconnect(); }
  'driver_location_update' => this.emit('location_update', data)
  'booking_update'         => this.emit('booking_update', data)
  'schedule_status_update' => this.emit('schedule_update', data)
  'notification'           => this.emit('notification', data)\<close>
  An event of any other name has no handler.
\<close>

definition socketio_on_connect :: "nat \<Rightarrow> socketio_service \<Rightarrow> socketio_service" where
  "socketio_on_connect i s =
     s\<lparr>io_sockets := update_socket i (\<lambda>k. k\<lparr>connected := True\<rparr>) (io_sockets s),
       console := console s @ [ConsoleLog ''WebSocket connected''],
       reconnectAttempts := 0\<rparr>"





text \<open>
  \<^verbatim>\<open>isConnected() { return this.socket?.connected || false; }
  subscribeToSchedule(scheduleId) {
    if (this.socket?.connected) this.socket.emit('subscribe_to_schedule', { schedule_id: scheduleId }); }\<close>
  The other outbound methods have the same shape; \<open>socket_emit\<close> is their common part.
\<close>

definition socketio_isConnected :: "socketio_service \<Rightarrow> bool" where
  "socketio_isConnected s =
     (case socket s of
        None \<Rightarrow> False
      | Some i \<Rightarrow> i < length (io_sockets s) \<and> connected (io_sockets s ! i))"

definition socket_emit :: "socketio_service \<Rightarrow> string \<Rightarrow> jsvalue \<Rightarrow> socketio_service" where
  "socket_emit s name payload =
     (case socket s of
        None \<Rightarrow> s
      | Some i \<Rightarrow>
          if i < length (io_sockets s) \<and> connected (io_sockets s ! i) then
            s\<lparr>io_sockets := update_socket i
                 (\<lambda>k. k\<lparr>emitted := emitted k @ [(name, payload)]\<rparr>) (io_sockets s)\<rparr>
          else s)"

definition socketio_subscribeToSchedule :: "socketio_service \<Rightarrow> number \<Rightarrow> socketio_service" where
  "socketio_subscribeToSchedule s scheduleId =
     socket_emit s ''subscribe_to_schedule'' (JObj [(''schedule_id'', JNum scheduleId)])"

definition socketio_unsubscribeFromSchedule :: "socketio_service \<Rightarrow> number \<Rightarrow> socketio_service" where
  "socketio_unsubscribeFromSchedule s scheduleId =
     socket_emit s ''unsubscribe_from_schedule'' (JObj [(''schedule_id'', JNum scheduleId)])"

definition socketio_updateDriverLocation :: "socketio_service \<Rightarrow> jsvalue \<Rightarrow> socketio_service" where
  "socketio_updateDriverLocation s location = socket_emit s ''location_update'' location"

definition socketio_updateDriverStatus :: "socketio_service \<Rightarrow> jsvalue \<Rightarrow> socketio_service" where
  "socketio_updateDriverStatus s status = socket_emit s ''status_update'' status"

definition socketio_getLocation :: "socketio_service \<Rightarrow> number \<Rightarrow> socketio_service" where
  "socketio_getLocation s scheduleId =
     socket_emit s ''get_location'' (JObj [(''schedule_id'', JNum scheduleId)])"






text \<open>A platform fragment for the examples: the values of the platform functions on the
  inputs the examples use (\<open>JSON.parse('{}')\<close> is the empty object, \<open>atob('e30')\<close> is
  \<open>'{}'\<close>, \<open>`${undefined}`\<close> is \<open>'undefined'\<close>); its arithmetic is exact, as that of
  doubles is on the small values the examples compute with.\<close>

definition example_platform :: platform where
  "example_platform =
     \<lparr>DEV = True,
      JSON_parse = (\<lambda>s. if s = ''{}'' then Some (JObj []) else None),
      JSON_stringify = (\<lambda>v. if v = JObj [] then ''{}'' else []),
      to_string = (\<lambda>v. if v = JUndefined then ''undefined'' else []),
      string_to_number = (\<lambda>s. NaN),
      atob = (\<lambda>s. if s = ''e30'' then Some ''{}'' else None),
      double = Fin\<rparr>"

definition example_store :: "string \<rightharpoonup> string" where
  "example_store = [''access_token'' \<mapsto> ''a1'', ''refresh_token'' \<mapsto> ''r1'', ''user'' \<mapsto> ''{}'']"

subsection \<open>Runs and example states\<close>







text \<open>The message types \<open>handleMessage\<close> has a case for.\<close>

definition known_types :: "string list" where
  "known_types = [''driver_location_update'', ''booking_update'', ''schedule_status_update'', ''notification'']"

text \<open>
  Example states: a service right after its constructor's \<open>connect()\<close> (the socket is
  still connecting), the same once the socket has opened, and a run of five closes, each
  followed by the reconnect timer.
\<close>

definition connecting_service :: native_service where
  "connecting_service = native_connect example_platform (new_native_service example_store)"

definition connected_service :: native_service where
  "connected_service = native_onopen 0 connecting_service"

definition io_connecting_service :: socketio_service where
  "io_connecting_service = socketio_connect example_platform (new_socketio_service example_store)"

definition io_connected_service :: socketio_service where
  "io_connected_service = socketio_on_connect 0 io_connecting_service"

definition listening_service :: native_service where
  "listening_service = native_step example_platform connected_service (CallOn ''notification'' 3)"

definition two_listeners :: service where
  "two_listeners =
     emitter_run (new_service Map.empty) [On ''booking_update'' 1, On ''booking_update'' 2,
                                          On ''notification'' 1]"


section \<open>The request gateway (frontend/shared/api.ts)\<close>

text \<open>
  \<open>createApiClient\<close> builds an axios instance with two interceptors. The world they act
  on is \<open>AsyncStorage\<close> and the network; \<open>net\<close> lists every request sent, oldest first.
  A request is an axios config: the fields a caller sets, the \<open>Authorization\<close> header and
  the marker \<open>_retry\<close> the response interceptor sets. \<open>RefreshPost\<close> is the interceptor's own
  \<open>axios.post(`${API_BASE_URL}/auth/token/refresh/`, { refresh })\<close>, sent outside the client.
  A server is any function from the requests seen so far and the request at hand to an
  answer; \<open>NoResponse\<close> is a timeout or a network failure.
\<close>

record request =
  req_method :: string
  req_url :: string
  req_body :: jsvalue
  authorization :: "string option"
  retry :: bool

datatype net_call = ClientRequest request | RefreshPost string

datatype http_result = Response nat jsvalue | NoResponse

datatype api_error = AxiosError "nat option"

record api_world =
  storage :: "string \<rightharpoonup> string"
  net :: "net_call list"

text \<open>\<open>AsyncStorage.multiRemove(keys)\<close>, and the three keys of a session.\<close>

definition multiRemove :: "string list \<Rightarrow> (string \<rightharpoonup> string) \<Rightarrow> (string \<rightharpoonup> string)" where
  "multiRemove keys store = (\<lambda>k. if k \<in> set keys then None else store k)"

definition session_keys :: "string list" where
  "session_keys = [''access_token'', ''refresh_token'', ''user'']"

text \<open>
  The request interceptor:
  \<^verbatim>\<open>const token = await AsyncStorage.getItem('access_token');
  if (token) { config.headers.Authorization = `Bearer ${token}`; }
  return config;\<close>
\<close>

definition attach_token :: "api_world \<Rightarrow> request \<Rightarrow> request" where
  "attach_token w config =
     (case storage w ''access_token'' of
        None \<Rightarrow> config
      | Some token \<Rightarrow>
          if token = [] then config else config\<lparr>authorization := Some (''Bearer '' @ token)\<rparr>)"

text \<open>
  Sending a request, and how axios settles the answer: a status from 200 to 299 resolves
  with the response data, anything else rejects with an error that carries the status
  (\<open>error.response?.status\<close>), if there was a response.
\<close>

definition dispatch ::
  "(net_call list \<Rightarrow> net_call \<Rightarrow> http_result) \<Rightarrow> api_world \<Rightarrow> net_call \<Rightarrow> http_result \<times> api_world" where
  "dispatch srv w c = (srv (net w) c, w\<lparr>net := net w @ [c]\<rparr>)"

fun settle :: "http_result \<Rightarrow> api_error + jsvalue" where
  "settle (Response status d) =
     (if 200 \<le> status \<and> status < 300 then Inr d else Inl (AxiosError (Some status)))"
| "settle NoResponse = Inl (AxiosError None)"

text \<open>
  The response interceptor's error handler, in the two parts its \<open>await axios.post\<close>
  separates.
  \<^verbatim>\<open>async (error) => {
    const originalRequest = error.config;
    if (error.response?.status === 401 && !originalRequest._retry) {
      originalRequest._retry = true;
      try {
        const refreshToken = await AsyncStorage.getItem('refresh_token');
        if (refreshToken) {
          const response = await axios.post(`${API_BASE_URL}/auth/token/refresh/`, { refresh: refreshToken });
          const { access } = response.data;
          await AsyncStorage.setItem('access_token', access);
          originalRequest.headers.Authorization = `Bearer ${access}`;
          return client(originalRequest);
        }
      } catch (refreshError) {
        await AsyncStorage.multiRemove(['access_token', 'refresh_token', 'user']);
      }
    }
    return Promise.reject(error);
  }\<close>
  \<open>on_rejected\<close> runs up to the post: its result is the marked request and the refresh
  token to post, or \<open>None\<close> when the handler goes straight to \<open>Promise.reject(error)\<close>.
  \<open>on_refresh_settled\<close> runs from the answer of the post: the request to send again, or
  \<open>None\<close> after the \<open>catch\<close> has removed the session keys. \<open>AsyncStorage.setItem\<close>
  stores strings only; a 2xx refresh answer with no string \<open>access\<close> (or with no object
  at all, where the destructuring throws) takes the \<open>catch\<close> as well.
\<close>

definition on_rejected :: "api_world \<Rightarrow> request \<Rightarrow> api_error \<Rightarrow> (request \<times> string) option" where
  "on_rejected w originalRequest err =
     (if err = AxiosError (Some 401) \<and> \<not> retry originalRequest then
        (case storage w ''refresh_token'' of
           None \<Rightarrow> None
         | Some refreshToken \<Rightarrow>
             if refreshToken = [] then None
             else Some (originalRequest\<lparr>retry := True\<rparr>, refreshToken))
      else None)"

definition on_refresh_settled :: "api_world \<Rightarrow> request \<Rightarrow> http_result \<Rightarrow> request option \<times> api_world" where
  "on_refresh_settled w originalRequest res =
     (case Option.bind (case settle res of Inl e \<Rightarrow> None | Inr d \<Rightarrow> Some d) (\<lambda>d. member d ''access'') of
        Some (JStr access) \<Rightarrow>
          (Some (originalRequest\<lparr>authorization := Some (''Bearer '' @ access)\<rparr>),
           w\<lparr>storage := (storage w)(''access_token'' \<mapsto> access)\<rparr>)
      | _ \<Rightarrow> (None, w\<lparr>storage := multiRemove session_keys (storage w)\<rparr>))"

text \<open>
  A call through the client: request interceptor, network, response interceptor. The
  retry is the source's recursive \<open>client(originalRequest)\<close>; it ends because a request
  marked \<open>_retry\<close> is never refreshed again.
\<close>

function client ::
  "(net_call list \<Rightarrow> net_call \<Rightarrow> http_result) \<Rightarrow> api_world \<Rightarrow> request \<Rightarrow> (api_error + jsvalue) \<times> api_world" where
  "client srv w config =
     (case dispatch srv w (ClientRequest (attach_token w config)) of
        (res, w1) \<Rightarrow>
          (case settle res of
             Inr d \<Rightarrow> (Inr d, w1)
           | Inl err \<Rightarrow>
               (case on_rejected w1 (attach_token w config) err of
                  None \<Rightarrow> (Inl err, w1)
                | Some (originalRequest, refreshToken) \<Rightarrow>
                    (case dispatch srv w1 (RefreshPost refreshToken) of
                       (refreshed, w2) \<Rightarrow>
                         (case on_refresh_settled w2 originalRequest refreshed of
                            (None, w3) \<Rightarrow> (Inl err, w3)
                          | (Some again, w3) \<Rightarrow> client srv w3 again)))))"
  by pat_completeness auto
termination
  apply (relation "measure (\<lambda>(srv, w, config). if retry config then 0 else 1)")
   apply simp
  apply (auto simp: on_rejected_def attach_token_def on_refresh_settled_def split: if_splits option.splits jsvalue.splits)
  done

declare client.simps [simp del]

text \<open>
  \<^verbatim>\<open>static async logout(): Promise<void> {
    await apiClient.post('/auth/logout/');
    await AsyncStorage.multiRemove(['access_token', 'refresh_token', 'user']); }\<close>
  A rejected \<open>post\<close> rejects \<open>logout\<close> at its first \<open>await\<close>.
\<close>

definition new_request :: "string \<Rightarrow> string \<Rightarrow> jsvalue \<Rightarrow> request" where
  "new_request method path body =
     \<lparr>req_method = method, req_url = path, req_body = body, authorization = None, retry = False\<rparr>"

definition ApiService_logout ::
  "(net_call list \<Rightarrow> net_call \<Rightarrow> http_result) \<Rightarrow> api_world \<Rightarrow> (api_error + unit) \<times> api_world" where
  "ApiService_logout srv w =
     (case client srv w (new_request ''POST'' ''/auth/logout/'' JUndefined) of
        (Inl err, w1) \<Rightarrow> (Inl err, w1)
      | (Inr d, w1) \<Rightarrow> (Inr (), w1\<lparr>storage := multiRemove session_keys (storage w1)\<rparr>))"

text \<open>
  \<^verbatim>\<open>storeAuthTokens = async (tokens) => { await AsyncStorage.multiSet(
      [['access_token', tokens.access], ['refresh_token', tokens.refresh]]); }
  storeUser = async (user) => { await AsyncStorage.setItem('user', JSON.stringify(user)); }
  clearStoredData = async () => { await AsyncStorage.multiRemove(
      ['access_token', 'refresh_token', 'user']); }\<close>
\<close>

definition storeAuthTokens :: "api_world \<Rightarrow> string \<Rightarrow> string \<Rightarrow> api_world" where
  "storeAuthTokens w acc ref =
     w\<lparr>storage := (storage w)(''access_token'' \<mapsto> acc, ''refresh_token'' \<mapsto> ref)\<rparr>"

definition storeUser :: "platform \<Rightarrow> api_world \<Rightarrow> jsvalue \<Rightarrow> api_world" where
  "storeUser P w u = w\<lparr>storage := (storage w)(''user'' \<mapsto> JSON_stringify P u)\<rparr>"

definition clearStoredData :: "api_world \<Rightarrow> api_world" where
  "clearStoredData w = w\<lparr>storage := multiRemove session_keys (storage w)\<rparr>"

text \<open>
  The operations on the stored session, each run to completion: any call through the
  client (\<open>ApiService.login\<close>, \<open>register\<close> and the rest are such calls and store nothing
  themselves), \<open>ApiService.logout\<close>, and the three storage helpers.
\<close>

datatype api_op =
    ApiRequest string string jsvalue
  | ApiLogout
  | StoreAuthTokens string string
  | StoreUser jsvalue
  | ClearStoredData

fun api_step ::
  "platform \<Rightarrow> (net_call list \<Rightarrow> net_call \<Rightarrow> http_result) \<Rightarrow> api_world \<Rightarrow> api_op \<Rightarrow> api_world" where
  "api_step P srv w (ApiRequest method path body) = snd (client srv w (new_request method path body))"
| "api_step P srv w ApiLogout = snd (ApiService_logout srv w)"
| "api_step P srv w (StoreAuthTokens acc ref) = storeAuthTokens w acc ref"
| "api_step P srv w (StoreUser u) = storeUser P w u"
| "api_step P srv w ClearStoredData = clearStoredData w"

text \<open>Both tokens stored, or neither.\<close>

definition tokens_paired :: "api_world \<Rightarrow> bool" where
  "tokens_paired w = (storage w ''access_token'' = None \<longleftrightarrow> storage w ''refresh_token'' = None)"

section \<open>The authentication provider (frontend/shared/hooks.ts, lines 961 to 1176)\<close>

text \<open>
  \<open>AuthProvider\<close> keeps the session in React state; the three \<open>useLocalStorage\<close> values
  are mirrored into \<open>localStorage\<close> as JSON (\<open>persisted\<close> holds the value whose JSON text is
  stored). A state update is taken to be in effect when the setter returns. The client
  \<open>api\<close> comes from \<open>useApi\<close>, which is not among the sources: a call of \<open>api.post\<close> is
  recorded in \<open>api_posts\<close> as one request, what it settles with is a parameter of the
  operation, and \<open>api_auth_token\<close> is the header that \<open>api.setAuthToken\<close> and
  \<open>api.clearAuthToken\<close> manage.
\<close>

record auth_response =
  data_access :: "string option"
  data_refresh :: "string option"
  data_user :: jsvalue

datatype api_outcome = Resolved auth_response | Rejected

datatype auth_error = InvalidResponse | NoRefreshToken | InvalidRefreshResponse | RequestFailed

record auth_provider =
  current_user :: jsvalue
  isLoading :: bool
  authToken :: "string option"
  refreshTokenValue :: "string option"
  userData :: jsvalue
  persisted :: "string \<rightharpoonup> jsvalue"
  api_auth_token :: "string option"
  api_posts :: "(string \<times> jsvalue) list"

definition AUTH_TOKEN_KEY :: string where "AUTH_TOKEN_KEY = ''twende_auth_token''"

definition REFRESH_TOKEN_KEY :: string where "REFRESH_TOKEN_KEY = ''twende_refresh_token''"

definition USER_DATA_KEY :: string where "USER_DATA_KEY = ''twende_user_data''"

fun json_of :: "string option \<Rightarrow> jsvalue" where
  "json_of None = JNull"
| "json_of (Some s) = JStr s"

text \<open>
  The setters of \<open>useLocalStorage\<close>:
  \<^verbatim>\<open>setStoredValue(valueToStore); window.localStorage.setItem(key, JSON.stringify(valueToStore));\<close>
\<close>

definition setAuthToken :: "string option \<Rightarrow> auth_provider \<Rightarrow> auth_provider" where
  "setAuthToken v s = s\<lparr>authToken := v, persisted := (persisted s)(AUTH_TOKEN_KEY \<mapsto> json_of v)\<rparr>"

definition setRefreshTokenValue :: "string option \<Rightarrow> auth_provider \<Rightarrow> auth_provider" where
  "setRefreshTokenValue v s =
     s\<lparr>refreshTokenValue := v, persisted := (persisted s)(REFRESH_TOKEN_KEY \<mapsto> json_of v)\<rparr>"

definition setUserData :: "jsvalue \<Rightarrow> auth_provider \<Rightarrow> auth_provider" where
  "setUserData v s = s\<lparr>userData := v, persisted := (persisted s)(USER_DATA_KEY \<mapsto> v)\<rparr>"

definition setUser :: "jsvalue \<Rightarrow> auth_provider \<Rightarrow> auth_provider" where
  "setUser v s = s\<lparr>current_user := v\<rparr>"

definition api_post :: "string \<Rightarrow> jsvalue \<Rightarrow> auth_provider \<Rightarrow> auth_provider" where
  "api_post path body s = s\<lparr>api_posts := api_posts s @ [(path, body)]\<rparr>"

text \<open>
  \<^verbatim>\<open>const clearAuth = () => { setUser(null); setAuthToken(null);
                            setRefreshTokenValue(null); setUserData(null); };\<close>
\<close>

definition clearAuth :: "auth_provider \<Rightarrow> auth_provider" where
  "clearAuth s = setUserData JNull (setRefreshTokenValue None (setAuthToken None (setUser JNull s)))"

text \<open>
  \<open>login\<close> and \<open>register\<close> differ in the endpoint only:
  \<^verbatim>\<open>try {
    setIsLoading(true);
    const response = await api.post<AuthResponse>('/auth/login/', credentials);
    if (response.data.access && response.data.refresh) {
      const { access, refresh, user: userData } = response.data;
      setAuthToken(access); setRefreshTokenValue(refresh); setUserData(userData); setUser(userData);
      api.setAuthToken(access);
    } else { throw new Error('Invalid response from server'); }
  } catch (error) { console.error('Login error:', error); throw error; }
  finally { setIsLoading(false); }\<close>
  Each asynchronous operation is split at its \<open>await\<close>: \<open>_begin\<close> runs up to the request,
  \<open>_settled\<close> runs from its outcome.
\<close>

definition store_session :: "auth_response \<Rightarrow> auth_provider \<Rightarrow> auth_provider" where
  "store_session d s =
     (setUser (data_user d) (setUserData (data_user d)
        (setRefreshTokenValue (data_refresh d) (setAuthToken (data_access d) s))))
     \<lparr>api_auth_token := data_access d\<rparr>"

definition sign_in_settled :: "auth_provider \<Rightarrow> api_outcome \<Rightarrow> (auth_error + unit) \<times> auth_provider" where
  "sign_in_settled s outcome =
     (case outcome of
        Rejected \<Rightarrow> (Inl RequestFailed, s\<lparr>isLoading := False\<rparr>)
      | Resolved d \<Rightarrow>
          if truthy (data_access d) \<and> truthy (data_refresh d)
          then (Inr (), (store_session d s)\<lparr>isLoading := False\<rparr>)
          else (Inl InvalidResponse, s\<lparr>isLoading := False\<rparr>))"

definition login_begin :: "auth_provider \<Rightarrow> jsvalue \<Rightarrow> auth_provider" where
  "login_begin s credentials = api_post ''/auth/login/'' credentials (s\<lparr>isLoading := True\<rparr>)"

definition login :: "auth_provider \<Rightarrow> jsvalue \<Rightarrow> api_outcome \<Rightarrow> (auth_error + unit) \<times> auth_provider" where
  "login s credentials outcome = sign_in_settled (login_begin s credentials) outcome"

definition register_begin :: "auth_provider \<Rightarrow> jsvalue \<Rightarrow> auth_provider" where
  "register_begin s d = api_post ''/auth/register/'' d (s\<lparr>isLoading := True\<rparr>)"

definition register :: "auth_provider \<Rightarrow> jsvalue \<Rightarrow> api_outcome \<Rightarrow> (auth_error + unit) \<times> auth_provider" where
  "register s d outcome = sign_in_settled (register_begin s d) outcome"

text \<open>
  \<^verbatim>\<open>const logout = () => {
    try { api.post('/auth/logout/').catch(console.error); }
    catch (error) { console.error('Logout error:', error); }
    finally { clearAuth(); api.clearAuthToken(); } };\<close>
  The request is not awaited.
\<close>

definition logout :: "auth_provider \<Rightarrow> auth_provider" where
  "logout s = (clearAuth (api_post ''/auth/logout/'' JUndefined s))\<lparr>api_auth_token := None\<rparr>"

text \<open>
  \<^verbatim>\<open>const refreshToken = async () => {
    try {
      if (!refreshTokenValue) { throw new Error('No refresh token available'); }
      const response = await api.post<AuthResponse>('/auth/refresh/', { refresh: refreshTokenValue });
      if (response.data.access) {
        const { access, user: userData } = response.data;
        setAuthToken(access); setUserData(userData); setUser(userData);
        api.setAuthToken(access);
      } else { throw new Error('Invalid refresh response'); }
    } catch (error) {
      console.error('Token refresh error:', error);
      clearAuth(); api.clearAuthToken(); throw error; } };\<close>
  \<open>refreshToken\<close> is a closure of the render that created it: the \<open>refreshTokenValue\<close> it
  tests and posts is the value that render saw (\<open>captured\<close>), not the provider's state
  at the time of the call, while its setters act on the state as it is. It is the only
  operation that reads the session. \<open>refreshToken_begin\<close> returns whether the request was
  posted (\<open>True\<close>) or the call has already failed for want of a refresh token.
\<close>

definition refresh_failed :: "auth_provider \<Rightarrow> auth_provider" where
  "refresh_failed s = (clearAuth s)\<lparr>api_auth_token := None\<rparr>"

definition refreshToken_begin :: "string option \<Rightarrow> auth_provider \<Rightarrow> bool \<times> auth_provider" where
  "refreshToken_begin captured s =
     (case captured of
        None \<Rightarrow> (False, refresh_failed s)
      | Some token \<Rightarrow>
          if token = [] then (False, refresh_failed s)
          else (True, api_post ''/auth/refresh/'' (JObj [(''refresh'', JStr token)]) s))"

definition refreshToken_settled :: "auth_provider \<Rightarrow> api_outcome \<Rightarrow> (auth_error + unit) \<times> auth_provider" where
  "refreshToken_settled s outcome =
     (case outcome of
        Rejected \<Rightarrow> (Inl RequestFailed, refresh_failed s)
      | Resolved d \<Rightarrow>
          if truthy (data_access d)
          then (Inr (), (setUser (data_user d) (setUserData (data_user d) (setAuthToken (data_access d) s)))
                          \<lparr>api_auth_token := data_access d\<rparr>)
          else (Inl InvalidRefreshResponse, refresh_failed s))"

definition refreshToken ::
  "string option \<Rightarrow> auth_provider \<Rightarrow> api_outcome \<Rightarrow> (auth_error + unit) \<times> auth_provider" where
  "refreshToken captured s outcome =
     (case refreshToken_begin captured s of
        (False, s') \<Rightarrow> (Inl NoRefreshToken, s')
      | (True, s') \<Rightarrow> refreshToken_settled s' outcome)"

text \<open>
  \<open>n\<close> calls of \<open>refreshToken()\<close> made one after the other through the provider value
  rendered in state \<open>s\<close>, none of them settled yet.
\<close>

definition refreshToken_calls :: "nat \<Rightarrow> auth_provider \<Rightarrow> auth_provider" where
  "refreshToken_calls n s = ((\<lambda>s'. snd (refreshToken_begin (refreshTokenValue s) s')) ^^ n) s"

definition refresh_posts :: "auth_provider \<Rightarrow> (string \<times> jsvalue) list" where
  "refresh_posts s = filter (\<lambda>(path, body). path = ''/auth/refresh/'') (api_posts s)"

text \<open>
  The provider before any session exists, and its operations run to completion. A
  refresh carries the \<open>refreshTokenValue\<close> its closure captured; it is called through the
  latest render when that value is the one in the state. The two tokens are paired when
  both are \<open>null\<close> or both are non-empty strings.
\<close>

definition initial_auth :: auth_provider where
  "initial_auth =
     \<lparr>current_user = JNull, isLoading = True, authToken = None, refreshTokenValue = None,
      userData = JNull, persisted = Map.empty, api_auth_token = None, api_posts = []\<rparr>"

datatype auth_op =
    Login jsvalue api_outcome
  | Register jsvalue api_outcome
  | RefreshToken "string option" api_outcome
  | Logout
  | ClearAuth

fun auth_step :: "auth_provider \<Rightarrow> auth_op \<Rightarrow> auth_provider" where
  "auth_step s (Login c outcome) = snd (login s c outcome)"
| "auth_step s (Register d outcome) = snd (register s d outcome)"
| "auth_step s (RefreshToken captured outcome) = snd (refreshToken captured s outcome)"
| "auth_step s Logout = logout s"
| "auth_step s ClearAuth = clearAuth s"

fun reads_current :: "auth_provider \<Rightarrow> auth_op \<Rightarrow> bool" where
  "reads_current s (RefreshToken captured outcome) = (captured = refreshTokenValue s)"
| "reads_current s x = True"

fun from_latest_render :: "auth_provider \<Rightarrow> auth_op list \<Rightarrow> bool" where
  "from_latest_render s [] = True"
| "from_latest_render s (x # xs) = (reads_current s x \<and> from_latest_render (auth_step s x) xs)"

definition session_paired :: "auth_provider \<Rightarrow> bool" where
  "session_paired s =
     ((authToken s = None \<and> refreshTokenValue s = None)
      \<or> (truthy (authToken s) \<and> truthy (refreshTokenValue s)))"

section \<open>Token utilities (frontend/shared/hooks.ts, lines 1265 to 1293)\<close>

text \<open>
  \<^verbatim>\<open>export const isTokenExpired = (token: string): boolean => {
    try {
      const payload = JSON.parse(atob(token.split('.')[1]));
      const currentTime = Date.now() / 1000;
      return payload.exp < currentTime;
    } catch (error) { return true; } };
  export const getTokenExpiration = (token: string): Date | null => {
    try { const payload = ...; return new Date(payload.exp * 1000); }
    catch (error) { return null; } };
  export const getTokenTimeUntilExpiry = (token: string): number => {
    try { const payload = ...; const currentTime = Date.now() / 1000;
          return Math.max(0, payload.exp - currentTime); }
    catch (error) { return 0; } };\<close>
  \<open>token.split('.')[1]\<close> is \<open>undefined\<close> when the token has no dot, and \<open>atob\<close> is then
  applied to the text \<open>undefined\<close>.
\<close>

fun split_on :: "char \<Rightarrow> string \<Rightarrow> string list" where
  "split_on c [] = [[]]"
| "split_on c (x # xs) =
     (if x = c then [] # split_on c xs
      else (case split_on c xs of [] \<Rightarrow> [[x]] | p # ps \<Rightarrow> (x # p) # ps))"

definition payload_segment :: "string \<Rightarrow> string" where
  "payload_segment token =
     (case split_on CHR ''.'' token of _ # segment # _ \<Rightarrow> segment | _ \<Rightarrow> ''undefined'')"

definition decode_payload :: "platform \<Rightarrow> string \<Rightarrow> jsvalue option" where
  "decode_payload P token = Option.bind (atob P (payload_segment token)) (JSON_parse P)"

text \<open>
  The arithmetic of the three functions on JavaScript numbers: the numeric conversion
  of a value, \<open><\<close> (false as soon as one side is \<open>NaN\<close>), \<open>-\<close>, \<open>* 1000\<close>,
  \<open>Math.max(0, x)\<close> (\<open>NaN\<close> for \<open>NaN\<close>), \<open>Date.now() / 1000\<close> for a clock reading
  \<open>now\<close> in whole milliseconds, and the time value \<open>new Date(x)\<close> keeps. Subtraction,
  multiplication and division round their exact result with \<open>double\<close>.
\<close>

fun to_number :: "platform \<Rightarrow> jsvalue \<Rightarrow> number" where
  "to_number P JUndefined = NaN"
| "to_number P JNull = Fin 0"
| "to_number P (JBool b) = Fin (if b then 1 else 0)"
| "to_number P (JNum n) = n"
| "to_number P (JStr s) = string_to_number P s"
| "to_number P v = string_to_number P (to_string P v)"

fun num_less :: "number \<Rightarrow> number \<Rightarrow> bool" where
  "num_less NaN y = False"
| "num_less x NaN = False"
| "num_less (Fin a) (Fin b) = (a < b)"
| "num_less x PosInf = (x \<noteq> PosInf)"
| "num_less NegInf y = (y \<noteq> NegInf)"
| "num_less x y = False"

fun num_minus :: "platform \<Rightarrow> number \<Rightarrow> number \<Rightarrow> number" where
  "num_minus P NaN y = NaN"
| "num_minus P x NaN = NaN"
| "num_minus P (Fin a) (Fin b) = double P (a - b)"
| "num_minus P PosInf PosInf = NaN"
| "num_minus P NegInf NegInf = NaN"
| "num_minus P PosInf y = PosInf"
| "num_minus P NegInf y = NegInf"
| "num_minus P x PosInf = NegInf"
| "num_minus P x NegInf = PosInf"

fun times_1000 :: "platform \<Rightarrow> number \<Rightarrow> number" where
  "times_1000 P (Fin a) = double P (a * 1000)"
| "times_1000 P x = x"

fun Math_max_0 :: "number \<Rightarrow> number" where
  "Math_max_0 NaN = NaN"
| "Math_max_0 (Fin a) = Fin (max 0 a)"
| "Math_max_0 PosInf = PosInf"
| "Math_max_0 NegInf = Fin 0"

definition currentTime :: "platform \<Rightarrow> nat \<Rightarrow> number" where
  "currentTime P now = double P (of_nat now / 1000)"

datatype date = Date number

fun time_clip :: "number \<Rightarrow> number" where
  "time_clip (Fin t) =
     (if \<bar>t\<bar> > 8640000000000000 then NaN
      else Fin (of_int (if 0 \<le> t then \<lfloor>t\<rfloor> else \<lceil>t\<rceil>)))"
| "time_clip x = NaN"

text \<open>
  In each function the \<open>try\<close> block can throw only while decoding or while reading
  \<open>payload.exp\<close> of \<open>null\<close>; both give \<open>None\<close> below, the \<open>catch\<close> branch.
\<close>

definition isTokenExpired :: "platform \<Rightarrow> nat \<Rightarrow> string \<Rightarrow> bool" where
  "isTokenExpired P now token =
     (case Option.bind (decode_payload P token) (\<lambda>payload. member payload ''exp'') of
        None \<Rightarrow> True
      | Some expiry \<Rightarrow> num_less (to_number P expiry) (currentTime P now))"

definition getTokenExpiration :: "platform \<Rightarrow> string \<Rightarrow> date option" where
  "getTokenExpiration P token =
     (case Option.bind (decode_payload P token) (\<lambda>payload. member payload ''exp'') of
        None \<Rightarrow> None
      | Some expiry \<Rightarrow> Some (Date (time_clip (times_1000 P (to_number P expiry)))))"

definition getTokenTimeUntilExpiry :: "platform \<Rightarrow> nat \<Rightarrow> string \<Rightarrow> number" where
  "getTokenTimeUntilExpiry P now token =
     (case Option.bind (decode_payload P token) (\<lambda>payload. member payload ''exp'') of
        None \<Rightarrow> Fin 0
      | Some expiry \<Rightarrow> Math_max_0 (num_minus P (to_number P expiry) (currentTime P now)))"

fun not_negative :: "number \<Rightarrow> bool" where
  "not_negative (Fin a) = (0 \<le> a)"
| "not_negative PosInf = True"
| "not_negative x = False"

text \<open>
  What the properties below need of the rounding: the rounded value is a number on the
  same side of zero as the exact one (rounding to nearest is monotone and keeps 0).
\<close>

fun sign_kept :: "rat \<Rightarrow> number \<Rightarrow> bool" where
  "sign_kept x (Fin y) = (if x < 0 then y \<le> 0 else if x = 0 then y = 0 else 0 \<le> y)"
| "sign_kept x PosInf = (0 < x)"
| "sign_kept x NegInf = (x < 0)"
| "sign_kept x NaN = False"

definition rounds_with_sign :: "platform \<Rightarrow> bool" where
  "rounds_with_sign P = (\<forall>x. sign_kept x (double P x))"

section \<open>Example states\<close>

text \<open>
  Servers that answer every request with one status or follow a script, a world with a
  stored session, a provider signed in, and a platform whose \<open>JSON.parse('{}')\<close> yields a
  payload with a numeric \<open>exp\<close> (used where an example needs a decodable token).
\<close>

definition empty_world :: api_world where
  "empty_world = \<lparr>storage = Map.empty, net = []\<rparr>"

definition always :: "nat \<Rightarrow> net_call list \<Rightarrow> net_call \<Rightarrow> http_result" where
  "always status history c = Response status JNull"

definition scripted :: "http_result list \<Rightarrow> net_call list \<Rightarrow> net_call \<Rightarrow> http_result" where
  "scripted answers history c =
     (if length history < length answers then answers ! length history else NoResponse)"

definition profile_request :: request where
  "profile_request = new_request ''GET'' ''/auth/profile/'' JUndefined"

definition example_world :: api_world where
  "example_world = \<lparr>storage = example_store, net = []\<rparr>"

definition signed_in :: auth_provider where
  "signed_in = snd (login initial_auth JNull
       (Resolved \<lparr>data_access = Some ''a1'', data_refresh = Some ''r1'', data_user = JObj []\<rparr>))"

definition refreshed_a2 :: api_outcome where
  "refreshed_a2 = Resolved \<lparr>data_access = Some ''a2'', data_refresh = None, data_user = JObj []\<rparr>"

definition expired_platform :: platform where
  "expired_platform = example_platform\<lparr>
     JSON_parse := (\<lambda>s. if s = ''{}'' then Some (JObj [(''exp'', JNum (Fin 1600000000))]) else None)\<rparr>"

section \<open>Unsubscribing a listener\<close>

lemma or_thrown_simps [simp]: "or_thrown s None = s" "or_thrown s (Some s') = s'"
  by (simp_all add: or_thrown_def)

lemma off_returned:
  "off s e cb = Some s' \<Longrightarrow>
   invoked s' = invoked s
   \<and> registered s' e' = (if e' = e then filter (\<lambda>c. c \<noteq> cb) (registered s e) else registered s e')"
  by (auto simp: off_def listeners_at_def registered_def split: option.splits if_splits)

lemma on_returned:
  "on s e cb = Some s' \<Longrightarrow>
   invoked s' = invoked s
   \<and> registered s' e' = (if e' = e then registered s e @ [cb] else registered s e')"
  by (auto simp: on_def listeners_at_def registered_def split: option.splits if_splits)

lemma emit_returned:
  "emit s e d = Some s' \<Longrightarrow>
   invoked s' = invoked s @ map (\<lambda>c. (e, c, d)) (registered s e)
   \<and> registered s' e' = registered s e'"
  by (auto simp: emit_def listeners_at_def registered_def split: option.splits if_splits)

lemma emit_returns:
  "listeners s e \<noteq> None \<or> e \<notin> set Object_prototype \<Longrightarrow> \<exists>s'. emit s e d = Some s'"
  by (auto simp: emit_def listeners_at_def split: option.splits)

lemma off_throws:
  "(off s e cb = None) = (listeners s e = None \<and> e \<in> set Object_prototype)"
  by (auto simp: off_def listeners_at_def split: option.splits)

lemma off_twice: "off s e cb = Some s' \<Longrightarrow> off s' e cb = Some s'"
  by (auto simp: off_def listeners_at_def split: option.splits if_splits)

lemma emitter_step_unregistered:
  assumes "cb \<notin> set (registered s e)" and "x \<noteq> On e cb"
  shows "cb \<notin> set (registered (emitter_step s x) e)
         \<and> calls_of e cb (emitter_step s x) = calls_of e cb s"
proof (cases x)
  case (On e' c)
  show ?thesis
  proof (cases "on s e' c")
    case None
    with On assms show ?thesis by simp
  next
    case (Some s')
    from on_returned[OF Some, of e] On Some assms show ?thesis
      by (auto simp: calls_of_def)
  qed
next
  case (Off e' c)
  show ?thesis
  proof (cases "off s e' c")
    case None
    with Off assms show ?thesis by simp
  next
    case (Some s')
    from off_returned[OF Some, of e] Off Some assms show ?thesis
      by (auto simp: calls_of_def)
  qed
next
  case (Emit e' d)
  show ?thesis
  proof (cases "emit s e' d")
    case None
    with Emit assms show ?thesis by simp
  next
    case (Some s')
    from emit_returned[OF Some, of e] Emit Some assms show ?thesis
      by (auto simp: calls_of_def filter_map comp_def filter_empty_conv)
  qed
qed

lemma unregistered_stays:
  assumes "cb \<notin> set (registered s e)" and "On e cb \<notin> set ops"
  shows "cb \<notin> set (registered (emitter_run s ops) e)
         \<and> calls_of e cb (emitter_run s ops) = calls_of e cb s"
  using assms
proof (induction ops arbitrary: s)
  case Nil
  then show ?case by (simp add: emitter_run_def)
next
  case (Cons x ops)
  from Cons.prems have "x \<noteq> On e cb" by auto
  from emitter_step_unregistered[OF Cons.prems(1) this]
  have step: "cb \<notin> set (registered (emitter_step s x) e)
              \<and> calls_of e cb (emitter_step s x) = calls_of e cb s" .
  from Cons.prems have "On e cb \<notin> set ops" by simp
  from Cons.IH[OF conjunct1[OF step] this] step
  show ?case by (simp add: emitter_run_def)
qed

lemma two_listeners_eval:
  "two_listeners
     = (new_service Map.empty)\<lparr>listeners :=
          [''booking_update'' \<mapsto> [1, 2], ''notification'' \<mapsto> [1]]\<rparr>"
  by (simp add: two_listeners_def emitter_run_def on_def listeners_at_def Object_prototype_def
      new_service_def fun_upd_twist)

text \<open>
  C7. \<open>off(event, callback)\<close> returns unless the event has no listener array of its own
  and its name is a member of \<open>Object.prototype\<close> (then \<open>this.listeners[event]\<close> is the
  inherited member, which has no \<open>filter\<close>, and the call throws). Once
  \<open>off(event, callback)\<close> has returned, no dispatch on that event calls the callback,
  whatever registrations, removals and dispatches follow (those that throw included),
  as long as the callback is not registered for the event again. A second \<open>off\<close> with
  the same arguments returns and changes nothing. The listeners that remain for the
  event are the ones that were registered, in their order, and the next dispatch calls
  exactly these; the listeners of every other event are untouched.
\<close>

theorem off_unsubscribes:
  "((off s event cb = None) = (listeners s event = None \<and> event \<in> set Object_prototype))
   \<and> (off s event cb = Some s' \<longrightarrow>
        (On event cb \<notin> set ops \<longrightarrow>
           calls_of event cb (emitter_run s' ops) = calls_of event cb s)
        \<and> off s' event cb = Some s'
        \<and> registered s' event = filter (\<lambda>c. c \<noteq> cb) (registered s event)
        \<and> (event' \<noteq> event \<longrightarrow> registered s' event' = registered s event')
        \<and> map_option invoked (emit s' event d)
            = Some (invoked s @ map (\<lambda>c. (event, c, d)) (filter (\<lambda>c. c \<noteq> cb) (registered s event))))"
proof -
  have "map_option invoked (emit s' event d)
          = Some (invoked s @ map (\<lambda>c. (event, c, d)) (filter (\<lambda>c. c \<noteq> cb) (registered s event)))"
    and "On event cb \<notin> set ops \<longrightarrow> calls_of event cb (emitter_run s' ops) = calls_of event cb s"
    if ret: "off s event cb = Some s'"
  proof -
    from ret have "listeners s' event \<noteq> None \<or> event \<notin> set Object_prototype"
      by (auto simp: off_def listeners_at_def split: option.splits if_splits)
    from emit_returns[OF this, of d] obtain s'' where e: "emit s' event d = Some s''" by blast
    from emit_returned[OF e, of event] off_returned[OF ret, of event] e
    show "map_option invoked (emit s' event d)
          = Some (invoked s @ map (\<lambda>c. (event, c, d)) (filter (\<lambda>c. c \<noteq> cb) (registered s event)))"
      by simp
    from off_returned[OF ret, of event]
    have a: "cb \<notin> set (registered s' event)" and b: "calls_of event cb s' = calls_of event cb s"
      by (simp_all add: calls_of_def)
    from unregistered_stays[OF a, of ops] b
    show "On event cb \<notin> set ops \<longrightarrow> calls_of event cb (emitter_run s' ops) = calls_of event cb s"
      by simp
  qed
  then show ?thesis
    using off_throws[of s event cb] off_twice[of s event cb s'] off_returned[of s event cb s']
    by auto
qed

theorem off_unsubscribes_witness:
  "off two_listeners ''booking_update'' 1
     = Some (two_listeners\<lparr>listeners := [''booking_update'' \<mapsto> [2], ''notification'' \<mapsto> [1]]\<rparr>)
   \<and> calls_of ''booking_update'' 1
       (emitter_run (two_listeners\<lparr>listeners := [''booking_update'' \<mapsto> [2], ''notification'' \<mapsto> [1]]\<rparr>)
          [Emit ''booking_update'' JNull, Off ''booking_update'' 1, On ''notification'' 1,
           Off ''constructor'' 1, Emit ''notification'' JNull, On ''toString'' 2,
           Emit ''booking_update'' (JBool True)]) = []
   \<and> map_option invoked
       (emit (two_listeners\<lparr>listeners := [''booking_update'' \<mapsto> [2], ''notification'' \<mapsto> [1]]\<rparr>)
          ''booking_update'' JNull)
       = Some [(''booking_update'', 2, JNull)]
   \<and> registered (two_listeners\<lparr>listeners := [''booking_update'' \<mapsto> [2], ''notification'' \<mapsto> [1]]\<rparr>)
       ''notification'' = [1]
   \<and> off two_listeners ''constructor'' 1 = None
   \<and> off two_listeners ''location_update'' 1 = Some two_listeners"
  using off_unsubscribes[where s = two_listeners and event = "''booking_update''" and cb = 1
      and s' = "two_listeners\<lparr>listeners := [''booking_update'' \<mapsto> [2], ''notification'' \<mapsto> [1]]\<rparr>"
      and ops = "[Emit ''booking_update'' JNull, Off ''booking_update'' 1, On ''notification'' 1,
           Off ''constructor'' 1, Emit ''notification'' JNull, On ''toString'' 2,
           Emit ''booking_update'' (JBool True)]"
      and event' = "''notification''" and d = JNull]
    off_unsubscribes[where s = two_listeners and event = "''constructor''" and cb = 1]
    off_unsubscribes[where s = two_listeners and event = "''location_update''" and cb = 1
      and s' = two_listeners]
  by (simp add: two_listeners_eval off_def listeners_at_def Object_prototype_def registered_def
      calls_of_def new_service_def fun_upd_twist)

section \<open>Reconnection backoff\<close>

































section \<open>Sending while not connected\<close>

lemma connecting_service_eval:
  "connecting_service =
     \<lparr>reconnectAttempts = 0, maxReconnectAttempts = 5, reconnectDelay = 1000,
      listeners = Map.empty, timeouts = [], console = [], invoked = [],
      asyncStorage = example_store, ws = Some 0,
      url = ''ws://localhost:8000/ws/user/undefined/'',
      sockets = [\<lparr>ws_url = ''ws://localhost:8000/ws/user/undefined/'',
                  ws_authorization = ''Bearer a1'', readyState = CONNECTING, frames_sent = []\<rparr>]\<rparr>"
  by (simp add: connecting_service_def native_connect_def new_native_service_def example_store_def
      example_platform_def WS_BASE_URL_def Let_def)

lemma io_connecting_service_eval:
  "io_connecting_service =
     \<lparr>reconnectAttempts = 0, maxReconnectAttempts = 5, reconnectDelay = 1000,
      listeners = Map.empty, timeouts = [], console = [], invoked = [],
      asyncStorage = example_store, socket = Some 0,
      io_sockets = [\<lparr>io_auth_token = ''a1'', connected = False, emitted = []\<rparr>]\<rparr>"
  by (simp add: io_connecting_service_def socketio_connect_def new_socketio_service_def example_store_def
      example_platform_def)

text \<open>
  C8. While the service is not connected (\<open>isConnected()\<close> is false: no socket, or a
  socket that is not open), \<open>send\<close> and every outbound-event method of both services
  return with the state unchanged: nothing is written to any socket, and there is no
  branch that throws.
\<close>

theorem send_not_connected:
  "(\<not> native_isConnected s \<longrightarrow>
      native_send P s m = s
      \<and> native_subscribeToSchedule P s n = s
      \<and> native_unsubscribeFromSchedule P s n = s
      \<and> native_updateDriverLocation P s m = s
      \<and> native_updateDriverStatus P s m = s)
   \<and> (\<not> socketio_isConnected t \<longrightarrow>
      socket_emit t name m = t
      \<and> socketio_subscribeToSchedule t n = t
      \<and> socketio_unsubscribeFromSchedule t n = t
      \<and> socketio_updateDriverLocation t m = t
      \<and> socketio_updateDriverStatus t m = t
      \<and> socketio_getLocation t n = t)"
proof -
  have a: "native_send P s x = s" if "\<not> native_isConnected s" for x
    using that by (auto simp: native_isConnected_def native_send_def split: option.splits)
  have b: "socket_emit t e x = t" if "\<not> socketio_isConnected t" for e x
    using that by (auto simp: socketio_isConnected_def socket_emit_def split: option.splits)
  show ?thesis
    by (simp add: a b native_subscribeToSchedule_def native_unsubscribeFromSchedule_def
        native_updateDriverLocation_def native_updateDriverStatus_def
        socketio_subscribeToSchedule_def socketio_unsubscribeFromSchedule_def
        socketio_updateDriverLocation_def socketio_updateDriverStatus_def socketio_getLocation_def)
qed

theorem send_not_connected_witness:
  "native_updateDriverLocation example_platform connecting_service (JObj []) = connecting_service
   \<and> map frames_sent (sockets (native_subscribeToSchedule example_platform connecting_service (Fin 7))) = [[]]
   \<and> socketio_subscribeToSchedule io_connecting_service (Fin 7) = io_connecting_service
   \<and> native_send example_platform (new_native_service Map.empty) JNull = new_native_service Map.empty"
  using send_not_connected[of connecting_service example_platform "JObj []" "Fin 7" io_connecting_service]
    send_not_connected[of "new_native_service Map.empty" example_platform JNull]
  by (simp add: connecting_service_eval io_connecting_service_eval native_isConnected_def
      socketio_isConnected_def new_native_service_def)

section \<open>Inbound frames of unknown type\<close>

text \<open>
  C9. A frame that \<open>JSON.parse\<close> rejects is logged with \<open>console.error\<close> and dropped. A
  frame that parses to a message whose \<open>type\<close> is none of the four known types is
  dropped too: no listener is called, and the only effect is one console line
  ("Unknown message type:", or the parse-error line when the message is \<open>null\<close> and
  reading its \<open>type\<close> throws inside the \<open>try\<close>). In both cases the handler returns.
\<close>

theorem unknown_frame_dropped:
  "(JSON_parse P frame = None \<longrightarrow>
      native_onmessage P s frame
        = s\<lparr>console := console s @ [ConsoleError ''Error parsing WebSocket message:'']\<rparr>)
   \<and> (JSON_parse P frame = Some message \<and> list_all (\<lambda>t. member message ''type'' \<noteq> Some (JStr t)) known_types \<longrightarrow>
      native_onmessage P s frame
        = s\<lparr>console := console s @
              [if member message ''type'' = None
               then ConsoleError ''Error parsing WebSocket message:''
               else ConsoleLog ''Unknown message type:'']\<rparr>
      \<and> invoked (native_onmessage P s frame) = invoked s)"
  by (auto simp: native_onmessage_def handleMessage_def known_types_def split: option.splits)

theorem unknown_frame_dropped_witness:
  "native_onmessage example_platform listening_service ''{}''
     = listening_service
         \<lparr>console := console listening_service @ [ConsoleLog ''Unknown message type:'']\<rparr>
   \<and> native_onmessage example_platform listening_service ''{''
     = listening_service
         \<lparr>console := console listening_service @ [ConsoleError ''Error parsing WebSocket message:'']\<rparr>"
  using unknown_frame_dropped[of example_platform "''{}''" listening_service "JObj []"]
   unknown_frame_dropped[of example_platform "''{''" listening_service "JObj []"]
  by (simp add: example_platform_def known_types_def)

section \<open>Calling connect on a live connection\<close>

text \<open>
  C6, as stated, fails: \<open>connect()\<close> does not look at the current socket. Called on a
  service whose socket is open (or still connecting), with a token and a user record in
  storage, it constructs a second socket and points the service at it; the first socket
  stays open.
\<close>

theorem connect_not_idempotent:
  "native_isConnected connected_service
   \<and> native_connect example_platform connected_service \<noteq> connected_service
   \<and> length (sockets (native_connect example_platform connected_service)) = 2
   \<and> ws (native_connect example_platform connected_service) = Some 1
   \<and> map readyState (sockets (native_connect example_platform connected_service)) = [OPEN, CONNECTING]
   \<and> length (sockets (native_connect example_platform connecting_service)) = 2
   \<and> socketio_isConnected io_connected_service
   \<and> length (io_sockets (socketio_connect example_platform io_connected_service)) = 2
   \<and> socket (socketio_connect example_platform io_connected_service) = Some 1"
  apply (simp add: connected_service_def connecting_service_eval native_onopen_def update_socket_def
      io_connected_service_def io_connecting_service_eval socketio_on_connect_def)
  apply (simp add: native_isConnected_def socketio_isConnected_def native_connect_def socketio_connect_def
       example_store_def example_platform_def WS_BASE_URL_def Let_def)
  done

text \<open>
  C6, amended. Whenever an access token and a user record are stored and the record
  parses, \<open>connect()\<close> constructs a new socket and makes it the service's current one,
  whatever the state of the connection it had; the sockets constructed earlier are left
  as they are. When the token or the user record is missing or empty, \<open>connect()\<close> only
  logs that it skips the connection.
\<close>

theorem connect_opens_channel:
  "(asyncStorage s ''access_token'' = Some token \<and> token \<noteq> [] \<and>
    asyncStorage s ''user'' = Some userString \<and> userString \<noteq> [] \<and>
    JSON_parse P userString = Some user \<and> member user ''id'' = Some uid \<longrightarrow>
      sockets (native_connect P s)
        = sockets s @ [\<lparr>ws_url = WS_BASE_URL P @ ''/ws/user/'' @ to_string P uid @ ''/'',
                         ws_authorization = ''Bearer '' @ token,
                         readyState = CONNECTING, frames_sent = []\<rparr>]
      \<and> ws (native_connect P s) = Some (length (sockets s)))
   \<and> (\<not> (truthy (asyncStorage s ''access_token'') \<and> truthy (asyncStorage s ''user'')) \<longrightarrow>
      native_connect P s
        = s\<lparr>console := console s @
             [ConsoleLog ''No auth token or user found, skipping WebSocket connection'']\<rparr>)
   \<and> (asyncStorage t ''access_token'' = Some token \<and> token \<noteq> [] \<and>
       asyncStorage t ''user'' = Some userString \<and> userString \<noteq> [] \<and>
       JSON_parse P userString = Some user \<longrightarrow>
      io_sockets (socketio_connect P t)
        = io_sockets t @ [\<lparr>io_auth_token = token, connected = False, emitted = []\<rparr>]
      \<and> socket (socketio_connect P t) = Some (length (io_sockets t)))
   \<and> (\<not> (truthy (asyncStorage t ''access_token'') \<and> truthy (asyncStorage t ''user'')) \<longrightarrow>
      socketio_connect P t
        = t\<lparr>console := console t @
             [ConsoleLog ''No auth token or user found, skipping WebSocket connection'']\<rparr>)"
  by (cases "asyncStorage s ''access_token''"; cases "asyncStorage s ''user''";
      cases "asyncStorage t ''access_token''"; cases "asyncStorage t ''user''")
     (simp_all add: native_connect_def socketio_connect_def Let_def)

theorem connect_opens_channel_witness:
  "sockets (native_connect example_platform connected_service)
     = sockets connected_service @
        [\<lparr>ws_url = ''ws://localhost:8000/ws/user/undefined/'', ws_authorization = ''Bearer a1'',
          readyState = CONNECTING, frames_sent = []\<rparr>]
   \<and> native_connect example_platform (new_native_service Map.empty)
      = (new_native_service Map.empty)\<lparr>console :=
             [ConsoleLog ''No auth token or user found, skipping WebSocket connection'']\<rparr>
   \<and> io_sockets (socketio_connect example_platform io_connected_service)
     = io_sockets io_connected_service @ [\<lparr>io_auth_token = ''a1'', connected = False, emitted = []\<rparr>]
   \<and> socketio_connect example_platform (new_socketio_service Map.empty)
      = (new_socketio_service Map.empty)\<lparr>console :=
             [ConsoleLog ''No auth token or user found, skipping WebSocket connection'']\<rparr>"
  using connect_opens_channel[of connected_service "''a1''" "''{}''" example_platform "JObj []" JUndefined
          io_connected_service]
     connect_opens_channel[of "new_native_service Map.empty" "''a1''" "''{}''" example_platform "JObj []" JUndefined
          "new_socketio_service Map.empty"]
  by (simp add: connected_service_def connecting_service_eval native_onopen_def
      io_connected_service_def io_connecting_service_eval socketio_on_connect_def
      example_store_def new_native_service_def new_socketio_service_def)
     (simp add: example_platform_def WS_BASE_URL_def)

section \<open>Refresh and retry in the request gateway\<close>

lemma client_retried:
  "retry config \<Longrightarrow>
   client srv w config =
     (settle (srv (net w) (ClientRequest (attach_token w config))),
      w\<lparr>net := net w @ [ClientRequest (attach_token w config)]\<rparr>)"
  by (subst client.simps)
     (auto simp: dispatch_def on_rejected_def attach_token_def split: sum.splits option.splits)

lemma retry_attach_token: "retry (attach_token w config) = retry config"
  by (simp add: attach_token_def split: option.splits)

lemma client_settles:
  "\<not> (settle (srv (net w) (ClientRequest (attach_token w config))) = Inl (AxiosError (Some 401))
       \<and> \<not> retry config \<and> truthy (storage w ''refresh_token'')) \<Longrightarrow>
   client srv w config =
     (settle (srv (net w) (ClientRequest (attach_token w config))),
      w\<lparr>net := net w @ [ClientRequest (attach_token w config)]\<rparr>)"
  apply (subst client.simps)
  apply (cases "storage w ''refresh_token''")
   apply (auto simp: dispatch_def on_rejected_def retry_attach_token split: sum.splits option.splits)
  done

lemma client_refresh_failed:
  assumes "settle (srv (net w) (ClientRequest (attach_token w config))) = Inl (AxiosError (Some 401))"
    and "\<not> retry config"
    and "storage w ''refresh_token'' = Some rtoken" and "rtoken \<noteq> []"
    and "\<forall>d a. settle (srv (net w @ [ClientRequest (attach_token w config)]) (RefreshPost rtoken)) = Inr d
           \<longrightarrow> member d ''access'' \<noteq> Some (JStr a)"
  shows "client srv w config =
     (Inl (AxiosError (Some 401)),
      w\<lparr>storage := multiRemove session_keys (storage w),
        net := net w @ [ClientRequest (attach_token w config), RefreshPost rtoken]\<rparr>)"
  using assms
  apply (subst client.simps)
  apply (auto simp: dispatch_def on_rejected_def on_refresh_settled_def retry_attach_token
      split: sum.splits option.splits jsvalue.splits Option.bind_splits)
  done

lemma client_refresh_ok:
  assumes "settle (srv (net w) (ClientRequest (attach_token w config))) = Inl (AxiosError (Some 401))"
    and "\<not> retry config"
    and "storage w ''refresh_token'' = Some rtoken" and "rtoken \<noteq> []"
    and "settle (srv (net w @ [ClientRequest (attach_token w config)]) (RefreshPost rtoken)) = Inr d"
    and "member d ''access'' = Some (JStr acc)"
  shows "client srv w config =
     (settle (srv (net w @ [ClientRequest (attach_token w config), RefreshPost rtoken])
                (ClientRequest ((attach_token w config)
                   \<lparr>retry := True, authorization := Some (''Bearer '' @ acc)\<rparr>))),
      w\<lparr>storage := (storage w)(''access_token'' \<mapsto> acc),
        net := net w @ [ClientRequest (attach_token w config), RefreshPost rtoken,
                        ClientRequest ((attach_token w config)
                           \<lparr>retry := True, authorization := Some (''Bearer '' @ acc)\<rparr>)]\<rparr>)"
  using assms
  apply (subst client.simps)
  apply (simp add: dispatch_def on_rejected_def on_refresh_settled_def retry_attach_token)
  apply (subst client_settles)
   apply simp
  apply (simp add: attach_token_def)
  done

lemma profile_request_attached:
  "attach_token example_world profile_request =
     \<lparr>req_method = ''GET'', req_url = ''/auth/profile/'', req_body = JUndefined,
      authorization = Some ''Bearer a1'', retry = False\<rparr>"
  by (simp add: attach_token_def example_world_def example_store_def profile_request_def new_request_def)

lemma multiRemove_paired:
  "multiRemove session_keys store ''access_token'' = None
   \<and> multiRemove session_keys store ''refresh_token'' = None
   \<and> multiRemove session_keys store ''user'' = None"
  by (simp add: multiRemove_def session_keys_def)

text \<open>
  C3, as stated, fails. A request answered 401 while no refresh token is stored triggers
  no refresh and no retry; and when the refresh itself is refused, one refresh is posted
  but the request is not retried (and the stored session is removed).
\<close>

theorem gateway_without_refresh:
  "client (always 401) empty_world profile_request
     = (Inl (AxiosError (Some 401)), \<lparr>storage = Map.empty, net = [ClientRequest profile_request]\<rparr>)
   \<and> client (always 401) example_world profile_request
     = (Inl (AxiosError (Some 401)),
        \<lparr>storage = example_store(''access_token'' := None, ''refresh_token'' := None, ''user'' := None),
         net = [ClientRequest (attach_token example_world profile_request), RefreshPost ''r1'']\<rparr>)"
proof
  have "attach_token empty_world profile_request = profile_request"
    by (simp add: attach_token_def empty_world_def)
  then show "client (always 401) empty_world profile_request
     = (Inl (AxiosError (Some 401)), \<lparr>storage = Map.empty, net = [ClientRequest profile_request]\<rparr>)"
    by (subst client_settles) (simp_all add: always_def empty_world_def)
next
  have "multiRemove session_keys example_store
          = example_store(''access_token'' := None, ''refresh_token'' := None, ''user'' := None)"
    by (simp add: multiRemove_def session_keys_def fun_eq_iff)
  then show "client (always 401) example_world profile_request
     = (Inl (AxiosError (Some 401)),
        \<lparr>storage = example_store(''access_token'' := None, ''refresh_token'' := None, ''user'' := None),
         net = [ClientRequest (attach_token example_world profile_request), RefreshPost ''r1'']\<rparr>)"
    by (subst client_refresh_failed[where rtoken="''r1''"])
       (simp_all add: always_def example_world_def example_store_def profile_request_def new_request_def)
qed

text \<open>
  C3, amended. For a request that is not yet marked \<open>_retry\<close>: if it is answered 401
  while a non-empty refresh token is stored, exactly one refresh is posted. If the
  refresh succeeds with an access token, the token is stored and the request is sent
  exactly once more, marked and carrying the new token, and the call settles with the
  answer to that retry, whatever it is: a second 401 fails the call with no further
  refresh or retry. If the refresh does not succeed, the call fails with the original
  401, without a retry, after the three session keys are removed. In every other case
  (another answer, or no refresh token stored) the call settles with the first answer
  and nothing else is sent.
\<close>

theorem gateway_refresh_retry:
  "(let request = attach_token w config;
        first = settle (srv (net w) (ClientRequest request));
        refreshed = settle (srv (net w @ [ClientRequest request]) (RefreshPost rtoken));
        again = request\<lparr>retry := True, authorization := Some (''Bearer '' @ acc)\<rparr>
    in \<not> retry config \<longrightarrow>
       (first = Inl (AxiosError (Some 401)) \<and> storage w ''refresh_token'' = Some rtoken
          \<and> rtoken \<noteq> [] \<and> refreshed = Inr d \<and> member d ''access'' = Some (JStr acc) \<longrightarrow>
          client srv w config =
            (settle (srv (net w @ [ClientRequest request, RefreshPost rtoken]) (ClientRequest again)),
             w\<lparr>storage := (storage w)(''access_token'' \<mapsto> acc),
               net := net w @ [ClientRequest request, RefreshPost rtoken, ClientRequest again]\<rparr>))
       \<and> (first = Inl (AxiosError (Some 401)) \<and> storage w ''refresh_token'' = Some rtoken
          \<and> rtoken \<noteq> []
          \<and> (\<forall>d' a. refreshed = Inr d' \<longrightarrow> member d' ''access'' \<noteq> Some (JStr a)) \<longrightarrow>
          client srv w config =
            (Inl (AxiosError (Some 401)),
             w\<lparr>storage := multiRemove session_keys (storage w),
               net := net w @ [ClientRequest request, RefreshPost rtoken]\<rparr>))
       \<and> (\<not> (first = Inl (AxiosError (Some 401)) \<and> truthy (storage w ''refresh_token'')) \<longrightarrow>
          client srv w config = (first, w\<lparr>net := net w @ [ClientRequest request]\<rparr>)))"
  unfolding Let_def
proof (intro conjI impI)
  assume "\<not> retry config"
    and "settle (srv (net w) (ClientRequest (attach_token w config))) = Inl (AxiosError (Some 401))
       \<and> storage w ''refresh_token'' = Some rtoken \<and> rtoken \<noteq> []
       \<and> settle (srv (net w @ [ClientRequest (attach_token w config)]) (RefreshPost rtoken)) = Inr d
       \<and> member d ''access'' = Some (JStr acc)"
  then show "client srv w config =
     (settle (srv (net w @ [ClientRequest (attach_token w config), RefreshPost rtoken])
                (ClientRequest ((attach_token w config)
                   \<lparr>retry := True, authorization := Some (''Bearer '' @ acc)\<rparr>))),
      w\<lparr>storage := (storage w)(''access_token'' \<mapsto> acc),
        net := net w @ [ClientRequest (attach_token w config), RefreshPost rtoken,
                        ClientRequest ((attach_token w config)
                           \<lparr>retry := True, authorization := Some (''Bearer '' @ acc)\<rparr>)]\<rparr>)"
    using client_refresh_ok[of srv w config rtoken d acc] by simp
next
  assume "\<not> retry config"
    and "settle (srv (net w) (ClientRequest (attach_token w config))) = Inl (AxiosError (Some 401))
       \<and> storage w ''refresh_token'' = Some rtoken \<and> rtoken \<noteq> []
       \<and> (\<forall>d' a. settle (srv (net w @ [ClientRequest (attach_token w config)]) (RefreshPost rtoken)) = Inr d'
             \<longrightarrow> member d' ''access'' \<noteq> Some (JStr a))"
  then show "client srv w config =
     (Inl (AxiosError (Some 401)),
      w\<lparr>storage := multiRemove session_keys (storage w),
        net := net w @ [ClientRequest (attach_token w config), RefreshPost rtoken]\<rparr>)"
    using client_refresh_failed[of srv w config rtoken] by simp
next
  assume "\<not> retry config"
    and "\<not> (settle (srv (net w) (ClientRequest (attach_token w config))) = Inl (AxiosError (Some 401))
         \<and> truthy (storage w ''refresh_token''))"
  then show "client srv w config =
     (settle (srv (net w) (ClientRequest (attach_token w config))),
      w\<lparr>net := net w @ [ClientRequest (attach_token w config)]\<rparr>)"
    using client_settles[of srv w config] by simp
qed

theorem gateway_refresh_retry_witness:
  "client (scripted [Response 401 JNull, Response 200 (JObj [(''access'', JStr ''a2'')]), Response 401 JNull])
      example_world profile_request
     = (Inl (AxiosError (Some 401)),
        \<lparr>storage = example_store(''access_token'' \<mapsto> ''a2''),
         net = [ClientRequest (attach_token example_world profile_request),
                RefreshPost ''r1'',
                ClientRequest ((attach_token example_world profile_request)
                   \<lparr>retry := True, authorization := Some ''Bearer a2''\<rparr>)]\<rparr>)
   \<and> client (scripted [Response 401 JNull, Response 401 JNull]) example_world profile_request
     = (Inl (AxiosError (Some 401)),
        \<lparr>storage = multiRemove session_keys example_store,
         net = [ClientRequest (attach_token example_world profile_request), RefreshPost ''r1'']\<rparr>)
   \<and> client (scripted [Response 200 (JStr ''profile'')]) example_world profile_request
     = (Inr (JStr ''profile''),
        \<lparr>storage = example_store,
         net = [ClientRequest (attach_token example_world profile_request)]\<rparr>)"
  using gateway_refresh_retry[of example_world profile_request
      "scripted [Response 401 JNull, Response 200 (JObj [(''access'', JStr ''a2'')]), Response 401 JNull]"
      "''r1''" "''a2''" "JObj [(''access'', JStr ''a2'')]"]
    gateway_refresh_retry[of example_world profile_request
      "scripted [Response 401 JNull, Response 401 JNull]" "''r1''" "''a2''" JNull]
    gateway_refresh_retry[of example_world profile_request
      "scripted [Response 200 (JStr ''profile'')]" "''r1''" "''a2''" JNull]
  by (simp add: Let_def scripted_def profile_request_attached)
     (simp add: example_world_def example_store_def profile_request_def new_request_def)

section \<open>Logout and the token store\<close>

text \<open>
  The provider's \<open>logout\<close> does not wait for the server: the session is cleared whatever
  the request comes to. The three \<open>localStorage\<close> entries are overwritten with \<open>null\<close>,
  not removed.
\<close>

lemma logout_clears_session:
  "authToken (logout s) = None \<and> refreshTokenValue (logout s) = None
   \<and> current_user (logout s) = JNull \<and> userData (logout s) = JNull
   \<and> api_auth_token (logout s) = None
   \<and> persisted (logout s) AUTH_TOKEN_KEY = Some JNull
   \<and> persisted (logout s) REFRESH_TOKEN_KEY = Some JNull
   \<and> persisted (logout s) USER_DATA_KEY = Some JNull"
  by (simp add: logout_def clearAuth_def setUserData_def setRefreshTokenValue_def setAuthToken_def
      setUser_def AUTH_TOKEN_KEY_def REFRESH_TOKEN_KEY_def USER_DATA_KEY_def)

text \<open>
  C4 does not hold for \<open>ApiService.logout\<close>. When the server answers the logout request
  with status 500, the call rejects at its first \<open>await\<close> and \<open>multiRemove\<close> is never
  reached: the access token, the refresh token and the user are still stored.
\<close>

theorem logout_keeps_tokens:
  "ApiService_logout (always 500) example_world
     = (Inl (AxiosError (Some 500)),
        example_world\<lparr>net := [ClientRequest (attach_token example_world
                                  (new_request ''POST'' ''/auth/logout/'' JUndefined))]\<rparr>)
   \<and> storage (snd (ApiService_logout (always 500) example_world)) ''access_token'' = Some ''a1''
   \<and> storage (snd (ApiService_logout (always 500) example_world)) ''refresh_token'' = Some ''r1''
   \<and> storage (snd (ApiService_logout (always 500) example_world)) ''user'' = Some ''{}''"
proof -
  have "client (always 500) example_world (new_request ''POST'' ''/auth/logout/'' JUndefined)
        = (Inl (AxiosError (Some 500)),
           example_world\<lparr>net := [ClientRequest (attach_token example_world
                                  (new_request ''POST'' ''/auth/logout/'' JUndefined))]\<rparr>)"
    by (subst client_settles) (simp_all add: always_def example_world_def)
  then show ?thesis
    by (simp add: ApiService_logout_def) (simp add: example_world_def example_store_def)
qed

section \<open>Access token and refresh token together\<close>

lemma client_storage:
  "storage (snd (client srv w config)) = storage w
   \<or> (storage w ''refresh_token'' \<noteq> None
       \<and> (\<exists>acc. storage (snd (client srv w config)) = (storage w)(''access_token'' \<mapsto> acc)))
   \<or> storage (snd (client srv w config)) = multiRemove session_keys (storage w)"
proof (cases "settle (srv (net w) (ClientRequest (attach_token w config))) = Inl (AxiosError (Some 401))
       \<and> \<not> retry config \<and> truthy (storage w ''refresh_token'')")
  case False
  then show ?thesis by (simp add: client_settles)
next
  case c: True
  then obtain rt where rt: "storage w ''refresh_token'' = Some rt" "rt \<noteq> []"
    by (cases "storage w ''refresh_token''") auto
  show ?thesis
  proof (cases "\<exists>d a. settle (srv (net w @ [ClientRequest (attach_token w config)]) (RefreshPost rt)) = Inr d
                  \<and> member d ''access'' = Some (JStr a)")
    case True
    then obtain d a where
      "settle (srv (net w @ [ClientRequest (attach_token w config)]) (RefreshPost rt)) = Inr d"
      "member d ''access'' = Some (JStr a)"
      by blast
    with c rt show ?thesis by (auto simp: client_refresh_ok)
  next
    case False
    with c rt show ?thesis by (simp add: client_refresh_failed)
  qed
qed

lemma client_paired: "tokens_paired w \<Longrightarrow> tokens_paired (snd (client srv w config))"
  using client_storage[of srv w config]
  by (auto simp: tokens_paired_def multiRemove_paired)

lemma logout_paired: "tokens_paired w \<Longrightarrow> tokens_paired (snd (ApiService_logout srv w))"
  using client_paired[of w srv "new_request ''POST'' ''/auth/logout/'' JUndefined"]
  by (auto simp: ApiService_logout_def tokens_paired_def multiRemove_paired split: prod.splits sum.splits)

lemma api_step_paired: "tokens_paired w \<Longrightarrow> tokens_paired (api_step P srv w x)"
  by (cases x)
     (simp_all add: client_paired logout_paired,
      simp_all add: tokens_paired_def storeAuthTokens_def storeUser_def clearStoredData_def multiRemove_paired)

lemma api_run_paired: "tokens_paired w \<Longrightarrow> tokens_paired (foldl (api_step P srv) w ops)"
  by (induction ops arbitrary: w) (simp_all add: api_step_paired)

lemma tokens_simps [simp]:
  "authToken (setAuthToken v s) = v" "refreshTokenValue (setAuthToken v s) = refreshTokenValue s"
  "authToken (setRefreshTokenValue v s) = authToken s" "refreshTokenValue (setRefreshTokenValue v s) = v"
  "authToken (setUserData u s) = authToken s" "refreshTokenValue (setUserData u s) = refreshTokenValue s"
  "authToken (setUser u s) = authToken s" "refreshTokenValue (setUser u s) = refreshTokenValue s"
  "authToken (api_post p b s) = authToken s" "refreshTokenValue (api_post p b s) = refreshTokenValue s"
  by (simp_all add: setAuthToken_def setRefreshTokenValue_def setUserData_def setUser_def api_post_def)

lemma clearAuth_tokens [simp]: "authToken (clearAuth s) = None" "refreshTokenValue (clearAuth s) = None"
  by (simp_all add: clearAuth_def)

lemma truthy_present: "truthy x \<Longrightarrow> x \<noteq> None"
  by (cases x) simp_all

lemma sign_in_paired: "session_paired s \<Longrightarrow> session_paired (snd (sign_in_settled s outcome))"
  by (cases outcome)
     (auto simp: session_paired_def sign_in_settled_def store_session_def dest: truthy_present)

lemma auth_step_paired:
  "session_paired s \<Longrightarrow> reads_current s x \<Longrightarrow> session_paired (auth_step s x)"
proof (cases x)
  case (Login c outcome)
  assume "session_paired s"
  then have "session_paired (login_begin s c)"
    by (simp add: session_paired_def login_begin_def)
  with Login show ?thesis by (simp add: login_def sign_in_paired)
next
  case (Register d outcome)
  assume "session_paired s"
  then have "session_paired (register_begin s d)"
    by (simp add: session_paired_def register_begin_def)
  with Register show ?thesis by (simp add: register_def sign_in_paired)
next
  case (RefreshToken captured outcome)
  assume "session_paired s" and "reads_current s x"
  with RefreshToken show ?thesis
    by (cases outcome)
       (auto simp: session_paired_def refreshToken_def refreshToken_begin_def refreshToken_settled_def
          refresh_failed_def dest: truthy_present split: option.splits)
next
  case Logout
  then show ?thesis by (simp add: session_paired_def logout_def)
next
  case ClearAuth
  then show ?thesis by (simp add: session_paired_def)
qed

lemma auth_run_paired:
  "session_paired s \<Longrightarrow> from_latest_render s ops \<Longrightarrow> session_paired (foldl auth_step s ops)"
  by (induction ops arbitrary: s) (simp_all add: auth_step_paired)

lemma signed_in_eval:
  "signed_in =
     \<lparr>current_user = JObj [], isLoading = False, authToken = Some ''a1'',
      refreshTokenValue = Some ''r1'', userData = JObj [],
      persisted = [AUTH_TOKEN_KEY \<mapsto> JStr ''a1'', REFRESH_TOKEN_KEY \<mapsto> JStr ''r1'',
                   USER_DATA_KEY \<mapsto> JObj []],
      api_auth_token = Some ''a1'', api_posts = [(''/auth/login/'', JNull)]\<rparr>"
  by (simp add: signed_in_def login_def login_begin_def sign_in_settled_def store_session_def
      initial_auth_def setAuthToken_def setRefreshTokenValue_def setUserData_def setUser_def api_post_def)

lemma refreshToken_begin_posts:
  "token \<noteq> [] \<Longrightarrow>
   refreshToken_begin (Some token) s
     = (True, api_post ''/auth/refresh/'' (JObj [(''refresh'', JStr token)]) s)"
  by (simp add: refreshToken_begin_def)

text \<open>
  C5, as stated, fails in three ways. In the provider, when operations overlap: a refresh
  is posted, \<open>logout\<close> runs while it is pending, then the refresh succeeds and sets the
  access token of a session whose refresh token is gone. In the provider, with every
  operation run to completion: \<open>logout()\<close> and then \<open>refreshToken()\<close> called through the
  provider value of the render before the logout, whose closure still holds the old
  refresh token, posts it and on success sets the access token alone. In the gateway: a
  401 starts a refresh, \<open>clearStoredData\<close> runs while the post is pending, then the answer
  stores the new access token alone.
\<close>

theorem session_half_populated:
  "fst (refreshToken_begin (Some ''r1'') signed_in) = True
   \<and> authToken (snd (refreshToken_settled
          (logout (snd (refreshToken_begin (Some ''r1'') signed_in))) refreshed_a2)) = Some ''a2''
   \<and> refreshTokenValue (snd (refreshToken_settled
          (logout (snd (refreshToken_begin (Some ''r1'') signed_in))) refreshed_a2)) = None
   \<and> refreshTokenValue signed_in = Some ''r1''
   \<and> refresh_posts (foldl auth_step signed_in [Logout, RefreshToken (Some ''r1'') refreshed_a2])
       = [(''/auth/refresh/'', JObj [(''refresh'', JStr ''r1'')])]
   \<and> authToken (foldl auth_step signed_in [Logout, RefreshToken (Some ''r1'') refreshed_a2])
       = Some ''a2''
   \<and> refreshTokenValue (foldl auth_step signed_in [Logout, RefreshToken (Some ''r1'') refreshed_a2])
       = None
   \<and> on_rejected example_world (attach_token example_world profile_request) (AxiosError (Some 401))
     = Some ((attach_token example_world profile_request)\<lparr>retry := True\<rparr>, ''r1'')
   \<and> storage (snd (on_refresh_settled (clearStoredData example_world)
         ((attach_token example_world profile_request)\<lparr>retry := True\<rparr>)
         (Response 200 (JObj [(''access'', JStr ''a2'')])))) ''access_token'' = Some ''a2''
   \<and> storage (snd (on_refresh_settled (clearStoredData example_world)
         ((attach_token example_world profile_request)\<lparr>retry := True\<rparr>)
         (Response 200 (JObj [(''access'', JStr ''a2'')])))) ''refresh_token'' = None"
proof -
  have overlap:
    "fst (refreshToken_begin (Some ''r1'') signed_in) = True
     \<and> authToken (snd (refreshToken_settled
          (logout (snd (refreshToken_begin (Some ''r1'') signed_in))) refreshed_a2)) = Some ''a2''
     \<and> refreshTokenValue (snd (refreshToken_settled
          (logout (snd (refreshToken_begin (Some ''r1'') signed_in))) refreshed_a2)) = None"
    by (simp add: refreshToken_begin_def refreshToken_settled_def refreshed_a2_def logout_def)
  have stale:
    "refreshTokenValue signed_in = Some ''r1''
     \<and> refresh_posts (foldl auth_step signed_in [Logout, RefreshToken (Some ''r1'') refreshed_a2])
         = [(''/auth/refresh/'', JObj [(''refresh'', JStr ''r1'')])]
     \<and> authToken (foldl auth_step signed_in [Logout, RefreshToken (Some ''r1'') refreshed_a2])
         = Some ''a2''
     \<and> refreshTokenValue (foldl auth_step signed_in [Logout, RefreshToken (Some ''r1'') refreshed_a2])
         = None"
    by (simp add: signed_in_eval refreshToken_def refreshToken_begin_def refreshToken_settled_def
        refreshed_a2_def logout_def clearAuth_def refresh_posts_def api_post_def
        setAuthToken_def setRefreshTokenValue_def setUserData_def setUser_def)
  have gateway:
    "on_rejected example_world (attach_token example_world profile_request) (AxiosError (Some 401))
       = Some ((attach_token example_world profile_request)\<lparr>retry := True\<rparr>, ''r1'')
     \<and> storage (snd (on_refresh_settled (clearStoredData example_world)
           ((attach_token example_world profile_request)\<lparr>retry := True\<rparr>)
           (Response 200 (JObj [(''access'', JStr ''a2'')])))) ''access_token'' = Some ''a2''
     \<and> storage (snd (on_refresh_settled (clearStoredData example_world)
           ((attach_token example_world profile_request)\<lparr>retry := True\<rparr>)
           (Response 200 (JObj [(''access'', JStr ''a2'')])))) ''refresh_token'' = None"
    by (simp add: on_rejected_def on_refresh_settled_def clearStoredData_def profile_request_attached
          multiRemove_paired)
       (simp add: example_world_def example_store_def)
  from overlap stale gateway show ?thesis by blast
qed

text \<open>
  C5, amended. When each session operation runs to completion before the next one
  starts, and each \<open>refreshToken()\<close> is called through the provider value of the latest
  render (so that the refresh token its closure holds is the one in the state), the two
  tokens are both present or both absent after every operation, on success and on
  failure: in \<open>AsyncStorage\<close> for any calls through the client (with its refresh on
  401), \<open>ApiService.logout\<close> and the storage helpers, against any server; and in the
  provider for any \<open>login\<close>, \<open>register\<close>, \<open>refreshToken\<close>, \<open>logout\<close> and \<open>clearAuth\<close>,
  whatever the requests settle with.
\<close>

theorem tokens_paired_sequential:
  "tokens_paired (foldl (api_step P srv) empty_world ops)
   \<and> (from_latest_render initial_auth auth_ops
        \<longrightarrow> session_paired (foldl auth_step initial_auth auth_ops))
   \<and> (tokens_paired w \<longrightarrow> tokens_paired (foldl (api_step P srv) w ops))
   \<and> (session_paired s \<and> from_latest_render s auth_ops
        \<longrightarrow> session_paired (foldl auth_step s auth_ops))"
proof -
  have "tokens_paired empty_world" by (simp add: tokens_paired_def empty_world_def)
  moreover have "session_paired initial_auth" by (simp add: session_paired_def initial_auth_def)
  ultimately show ?thesis by (simp add: api_run_paired auth_run_paired)
qed

theorem tokens_paired_sequential_witness:
  "tokens_paired (foldl (api_step example_platform (always 401)) example_world
       [ApiRequest ''GET'' ''/auth/profile/'' JUndefined, StoreAuthTokens ''a3'' ''r3'', ApiLogout])
   \<and> from_latest_render signed_in
        [RefreshToken (Some ''r1'') refreshed_a2, Logout, RefreshToken None Rejected]
   \<and> session_paired (foldl auth_step signed_in
        [RefreshToken (Some ''r1'') refreshed_a2, Logout, RefreshToken None Rejected])
   \<and> from_latest_render initial_auth
        [RefreshToken None refreshed_a2, Login JNull (Resolved \<lparr>data_access = Some ''a1'', data_refresh = Some ''r1'', data_user = JObj []\<rparr>),
         RefreshToken (Some ''r1'') refreshed_a2]
   \<and> session_paired (foldl auth_step initial_auth
        [RefreshToken None refreshed_a2, Login JNull (Resolved \<lparr>data_access = Some ''a1'', data_refresh = Some ''r1'', data_user = JObj []\<rparr>),
         RefreshToken (Some ''r1'') refreshed_a2])"
  using tokens_paired_sequential[of example_platform "always 401"
      "[ApiRequest ''GET'' ''/auth/profile/'' JUndefined, StoreAuthTokens ''a3'' ''r3'', ApiLogout]"
      "[RefreshToken None refreshed_a2, Login JNull (Resolved \<lparr>data_access = Some ''a1'', data_refresh = Some ''r1'', data_user = JObj []\<rparr>),
        RefreshToken (Some ''r1'') refreshed_a2]" example_world signed_in]
    tokens_paired_sequential[of example_platform "always 401" "[]"
      "[RefreshToken (Some ''r1'') refreshed_a2, Logout, RefreshToken None Rejected]"
      example_world signed_in]
  by (simp add: tokens_paired_def session_paired_def example_world_def example_store_def
      signed_in_eval initial_auth_def refreshToken_def refreshToken_begin_def
      refreshToken_settled_def refreshed_a2_def refresh_failed_def logout_def api_post_def
      login_def login_begin_def sign_in_settled_def store_session_def
      setAuthToken_def setRefreshTokenValue_def setUserData_def setUser_def)

section \<open>Concurrent refreshes\<close>

lemma refreshToken_calls_posts:
  "refreshTokenValue s = Some token \<Longrightarrow> token \<noteq> [] \<Longrightarrow>
   refreshTokenValue (refreshToken_calls n s) = Some token
   \<and> api_posts (refreshToken_calls n s)
       = api_posts s @ replicate n (''/auth/refresh/'', JObj [(''refresh'', JStr token)])"
proof (induction n)
  case 0
  then show ?case by (simp add: refreshToken_calls_def)
next
  case (Suc n)
  then have ih: "refreshTokenValue (refreshToken_calls n s) = Some token"
    "api_posts (refreshToken_calls n s)
       = api_posts s @ replicate n (''/auth/refresh/'', JObj [(''refresh'', JStr token)])"
    by simp_all
  have "refreshToken_calls (Suc n) s
          = snd (refreshToken_begin (refreshTokenValue s) (refreshToken_calls n s))"
    by (simp add: refreshToken_calls_def)
  with ih Suc.prems show ?case
    by (simp add: refreshToken_begin_posts api_post_def replicate_append_same)
qed

text \<open>
  C1, as stated, fails: there is no refresh in flight to join. Two calls of
  \<open>refreshToken()\<close> made while none is pending post two refresh requests, and each caller
  gets the outcome of its own request: here the first succeeds, the second is rejected
  and clears the session the first one has just renewed.
\<close>

theorem refresh_not_single_flight:
  "refresh_posts (refreshToken_calls 2 signed_in)
     = [(''/auth/refresh/'', JObj [(''refresh'', JStr ''r1'')]),
        (''/auth/refresh/'', JObj [(''refresh'', JStr ''r1'')])]
   \<and> fst (refreshToken_settled (refreshToken_calls 2 signed_in) refreshed_a2) = Inr ()
   \<and> fst (refreshToken_settled
             (snd (refreshToken_settled (refreshToken_calls 2 signed_in) refreshed_a2)) Rejected)
       = Inl RequestFailed
   \<and> authToken (snd (refreshToken_settled
             (snd (refreshToken_settled (refreshToken_calls 2 signed_in) refreshed_a2)) Rejected))
       = None"
proof -
  have "refreshToken_calls 2 signed_in
        = signed_in\<lparr>api_posts := [(''/auth/login/'', JNull),
            (''/auth/refresh/'', JObj [(''refresh'', JStr ''r1'')]),
            (''/auth/refresh/'', JObj [(''refresh'', JStr ''r1'')])]\<rparr>"
    by (simp add: refreshToken_calls_def numeral_2_eq_2 signed_in_eval refreshToken_begin_def api_post_def)
  then show ?thesis
    by (simp add: refresh_posts_def refreshToken_settled_def refreshed_a2_def refresh_failed_def)
qed

text \<open>
  C1, amended. Every call of \<open>refreshToken()\<close> made while a refresh token is held posts
  its own request: \<open>n\<close> calls made before any of them settles post \<open>n\<close> refresh requests
  with the same token. What a caller observes depends on the outcome of its own request
  only. The gateway decides on a 401 from the request and the stored token alone,
  whatever requests are already under way.
\<close>

theorem refresh_per_call:
  "(refreshTokenValue s = Some token \<and> token \<noteq> [] \<longrightarrow>
      api_posts (refreshToken_calls n s)
        = api_posts s @ replicate n (''/auth/refresh/'', JObj [(''refresh'', JStr token)]))
   \<and> fst (refreshToken_settled s' outcome)
        = (case outcome of
             Rejected \<Rightarrow> Inl RequestFailed
           | Resolved d \<Rightarrow> if truthy (data_access d) then Inr () else Inl InvalidRefreshResponse)
   \<and> on_rejected (w\<lparr>net := history\<rparr>) config err = on_rejected w config err"
  using refreshToken_calls_posts[of s token n]
  by (cases outcome) (simp_all add: refreshToken_settled_def on_rejected_def)

theorem refresh_per_call_witness:
  "api_posts (refreshToken_calls 3 signed_in)
     = [(''/auth/login/'', JNull),
        (''/auth/refresh/'', JObj [(''refresh'', JStr ''r1'')]),
        (''/auth/refresh/'', JObj [(''refresh'', JStr ''r1'')]),
        (''/auth/refresh/'', JObj [(''refresh'', JStr ''r1'')])]"
  using refresh_per_call[of signed_in "''r1''" 3]
  by (simp add: signed_in_eval numeral_3_eq_3)

section \<open>Tokens that do not decode\<close>

lemma payload_segment_example: "payload_segment ''x.e30.x'' = ''e30''"
  by (simp add: payload_segment_def)

lemma Math_max_0_not_negative: "x \<noteq> NaN \<Longrightarrow> not_negative (Math_max_0 x)"
  by (cases x) simp_all

lemma double_sign: "rounds_with_sign P \<Longrightarrow> sign_kept x (double P x)"
  by (simp add: rounds_with_sign_def)

lemma double_not_NaN: "rounds_with_sign P \<Longrightarrow> double P x \<noteq> NaN"
  using double_sign[of P x] by (cases "double P x") simp_all

lemma num_minus_NaN: "rounds_with_sign P \<Longrightarrow> x \<noteq> NaN \<Longrightarrow> num_minus P x (Fin b) \<noteq> NaN"
  by (cases x) (simp_all add: double_not_NaN)

lemma currentTime_sign:
  "rounds_with_sign P \<Longrightarrow> currentTime P now \<noteq> NaN \<and> currentTime P now \<noteq> NegInf"
  using double_sign[of P "of_nat now / 1000"]
  by (cases "double P (of_nat now / 1000)") (simp_all add: currentTime_def)

lemma max_0_below:
  assumes "rounds_with_sign P" and "a < b"
  shows "Math_max_0 (double P (a - b)) = Fin 0"
  using double_sign[OF assms(1), of "a - b"] assms(2)
  by (cases "double P (a - b)") (simp_all add: max_def)

lemma clamped_once_less:
  assumes "rounds_with_sign P" and "num_less x (currentTime P now)"
  shows "Math_max_0 (num_minus P x (currentTime P now)) = Fin 0"
proof (cases "currentTime P now")
  case NaN
  with currentTime_sign[OF assms(1), of now] show ?thesis by simp
next
  case NegInf
  with currentTime_sign[OF assms(1), of now] show ?thesis by simp
next
  case PosInf
  with assms(2) show ?thesis by (cases x) simp_all
next
  case (Fin b)
  with assms(2) max_0_below[OF assms(1), of _ b] show ?thesis by (cases x) simp_all
qed

lemma sign_kept_exact: "sign_kept x (Fin x)"
  by simp

text \<open>
  C10, as stated, fails. The token \<open>x.e30.x\<close> has the payload \<open>{}\<close>: it decodes, but has no
  \<open>exp\<close>. Nothing throws, so the \<open>catch\<close> branches are not taken: \<open>isTokenExpired\<close> is
  false (\<open>undefined < t\<close>), \<open>getTokenExpiration\<close> is an invalid \<open>Date\<close>, not \<open>null\<close>, and
  \<open>getTokenTimeUntilExpiry\<close> is \<open>NaN\<close>, not 0.
\<close>

theorem token_without_exp:
  "\<not> isTokenExpired example_platform 1700000000000 ''x.e30.x''
   \<and> getTokenExpiration example_platform ''x.e30.x'' = Some (Date NaN)
   \<and> getTokenTimeUntilExpiry example_platform 1700000000000 ''x.e30.x'' = NaN"
  by (simp add: isTokenExpired_def getTokenExpiration_def getTokenTimeUntilExpiry_def
      decode_payload_def payload_segment_example example_platform_def)

text \<open>
  C10, amended. For every input on which decoding throws (no payload segment that
  \<open>atob\<close> accepts, a payload that is not JSON, or the payload \<open>null\<close>), \<open>isTokenExpired\<close>
  returns true, \<open>getTokenExpiration\<close> returns \<open>null\<close> and \<open>getTokenTimeUntilExpiry\<close> returns
  0. For every token whose payload has a number as \<open>exp\<close>, \<open>getTokenTimeUntilExpiry\<close> is
  never negative: it is the larger of 0 and the rounded difference between \<open>exp\<close> and the
  current time. It is clamped at 0 once the token has expired: whenever
  \<open>isTokenExpired\<close> returns true, for any token, \<open>getTokenTimeUntilExpiry\<close> returns 0. All
  this for an arithmetic whose rounding keeps the sign of the exact result, and a clock
  whose reading in seconds is finite.
\<close>

theorem token_utilities:
  "(Option.bind (decode_payload P token) (\<lambda>payload. member payload ''exp'') = None \<longrightarrow>
      isTokenExpired P now token
      \<and> getTokenExpiration P token = None
      \<and> getTokenTimeUntilExpiry P now token = Fin 0)
   \<and> (decode_payload P token = Some payload \<and> member payload ''exp'' = Some (JNum e) \<and> e \<noteq> NaN
        \<and> rounds_with_sign P \<and> currentTime P now = Fin t \<longrightarrow>
      not_negative (getTokenTimeUntilExpiry P now token)
      \<and> getTokenTimeUntilExpiry P now token = Math_max_0 (num_minus P e (Fin t)))
   \<and> (rounds_with_sign P \<and> isTokenExpired P now token \<longrightarrow>
      getTokenTimeUntilExpiry P now token = Fin 0)"
proof -
  have a: "isTokenExpired P now token \<and> getTokenExpiration P token = None
           \<and> getTokenTimeUntilExpiry P now token = Fin 0"
    if "Option.bind (decode_payload P token) (\<lambda>payload. member payload ''exp'') = None"
    using that by (simp add: isTokenExpired_def getTokenExpiration_def getTokenTimeUntilExpiry_def)
  have b: "not_negative (getTokenTimeUntilExpiry P now token)
           \<and> getTokenTimeUntilExpiry P now token = Math_max_0 (num_minus P e (Fin t))"
    if "decode_payload P token = Some payload" "member payload ''exp'' = Some (JNum e)" "e \<noteq> NaN"
       "rounds_with_sign P" "currentTime P now = Fin t"
    using that by (simp add: getTokenTimeUntilExpiry_def Math_max_0_not_negative num_minus_NaN)
  have c: "getTokenTimeUntilExpiry P now token = Fin 0"
    if "rounds_with_sign P" "isTokenExpired P now token"
    using that
    by (auto simp: isTokenExpired_def getTokenTimeUntilExpiry_def clamped_once_less
        split: option.splits)
  from a b c show ?thesis by blast
qed

theorem token_utilities_witness:
  "isTokenExpired example_platform 1700000000000 ''not a token''
   \<and> getTokenExpiration example_platform ''not a token'' = None
   \<and> getTokenTimeUntilExpiry example_platform 1700000000000 ''not a token'' = Fin 0
   \<and> rounds_with_sign expired_platform
   \<and> currentTime expired_platform 1700000000000 = Fin 1700000000
   \<and> isTokenExpired expired_platform 1700000000000 ''x.e30.x''
   \<and> getTokenTimeUntilExpiry expired_platform 1700000000000 ''x.e30.x'' = Fin 0
   \<and> \<not> isTokenExpired expired_platform 1500000000000 ''x.e30.x''
   \<and> not_negative (getTokenTimeUntilExpiry expired_platform 1500000000000 ''x.e30.x'')
   \<and> getTokenTimeUntilExpiry expired_platform 1500000000000 ''x.e30.x'' = Fin 100000000"
  using token_utilities[of example_platform "''not a token''" 1700000000000 JNull NaN 0]
    token_utilities[of expired_platform "''x.e30.x''" 1700000000000
       "JObj [(''exp'', JNum (Fin 1600000000))]" "Fin 1600000000" 1700000000]
    token_utilities[of expired_platform "''x.e30.x''" 1500000000000
       "JObj [(''exp'', JNum (Fin 1600000000))]" "Fin 1600000000" 1500000000]
  by (simp add: rounds_with_sign_def sign_kept_exact decode_payload_def payload_segment_example
      payload_segment_def example_platform_def expired_platform_def currentTime_def
      isTokenExpired_def)

end
